theory Spec2Isabelle
  imports Complex_Main
begin

section \<open>Python strings\<close>

text \<open>
  A Python \<open>str\<close> is modelled as a \<open>string\<close> whose characters stand for the code
  points 0 to 255; a \<open>bytes\<close> value is a \<open>string\<close> whose characters are the bytes.
  Code points above 255 are outside the model. Python's \<open>int\<close> is \<open>int\<close>. The
  conversions between \<open>int\<close> and \<open>str\<close> raise \<open>ValueError\<close> beyond
  \<open>max_str_digits\<close> digits, the default of the interpreter.
\<close>

definition max_str_digits :: nat where
  "max_str_digits = 4300"

abbreviation CR :: char where "CR \<equiv> CHR 0x0D"
abbreviation LF :: char where "LF \<equiv> CHR 0x0A"

text \<open>\<open>s.rstrip(chars)\<close> and \<open>s.strip()\<close> with an explicit character class.\<close>

definition rstrip :: "string \<Rightarrow> string \<Rightarrow> string" where
  "rstrip chars s = rev (dropWhile (\<lambda>c. c \<in> set chars) (rev s))"

definition strip_class :: "(char \<Rightarrow> bool) \<Rightarrow> string \<Rightarrow> string" where
  "strip_class p s = rev (dropWhile p (rev (dropWhile p s)))"

text \<open>\<open>sep.join(xs)\<close>.\<close>

fun join :: "string \<Rightarrow> string list \<Rightarrow> string" where
  "join sep [] = []"
| "join sep [x] = x"
| "join sep (x # y # ys) = x @ sep @ join sep (y # ys)"

text \<open>
  The character classes of CPython below code point 256: \<open>str.isspace\<close> (also the
  separators of \<open>str.split()\<close>), the white space that \<open>int()\<close> strips,
  \<open>str.isdecimal\<close> (also the regular expression class \<open>\d\<close> and the digits
  \<open>int()\<close> accepts) and \<open>str.isdigit\<close>, which also holds of the superscript
  digits.
\<close>

definition isspace :: "char \<Rightarrow> bool" where
  "isspace c = (c \<in> set [CHR 0x09, CHR 0x0A, CHR 0x0B, CHR 0x0C, CHR 0x0D,
                          CHR 0x1C, CHR 0x1D, CHR 0x1E, CHR 0x1F, CHR 0x20, CHR 0x85, CHR 0xA0])"

definition int_space :: "char \<Rightarrow> bool" where
  "int_space c = (c \<in> set [CHR 0x09, CHR 0x0A, CHR 0x0B, CHR 0x0C, CHR 0x0D,
                            CHR 0x20, CHR 0x85, CHR 0xA0])"

definition isdecimal :: "char \<Rightarrow> bool" where
  "isdecimal c = (c \<in> set ''0123456789'')"

definition isdigit_char :: "char \<Rightarrow> bool" where
  "isdigit_char c = (isdecimal c \<or> c \<in> set [CHR 0xB2, CHR 0xB3, CHR 0xB9])"

definition digit_val :: "char \<Rightarrow> nat" where
  "digit_val c = of_char c - 48"

definition dec_val :: "string \<Rightarrow> nat" where
  "dec_val ds = foldl (\<lambda>a c. 10 * a + digit_val c) 0 ds"

text \<open>
  The digits of an integer literal: decimal digits, with single underscores allowed
  between two digits. The result is the digits without the underscores.
\<close>

fun int_digits :: "string \<Rightarrow> string option" where
  "int_digits [] = None"
| "int_digits [c] = (if isdecimal c then Some [c] else None)"
| "int_digits (c # d # cs) =
     (if \<not> isdecimal c then None
      else if d = CHR ''_'' then map_option ((#) c) (int_digits cs)
      else map_option ((#) c) (int_digits (d # cs)))"

text \<open>
  \<open>int(s)\<close> for a string: \<open>None\<close> stands for \<open>ValueError\<close>. The digits are
  counted without the sign, the white space and the underscores, and with the leading
  zeros; more than \<open>max_str_digits\<close> of them are refused.
\<close>

definition limited :: "string option \<Rightarrow> string option" where
  "limited d =
     (case d of
        None \<Rightarrow> None
      | Some ds \<Rightarrow> if length ds > max_str_digits then None else Some ds)"

definition py_int :: "string \<Rightarrow> int option" where
  "py_int s =
     (let t = strip_class int_space s in
      case t of
        [] \<Rightarrow> None
      | c # r \<Rightarrow>
          if c = CHR ''-'' then map_option (\<lambda>ds. - int (dec_val ds)) (limited (int_digits r))
          else if c = CHR ''+'' then map_option (\<lambda>ds. int (dec_val ds)) (limited (int_digits r))
          else map_option (\<lambda>ds. int (dec_val ds)) (limited (int_digits t)))"

text \<open>
  \<open>str(n)\<close> for an integer: \<open>py_str\<close> is the text, and \<open>str_fits\<close> tells
  whether the conversion is allowed (it raises \<open>ValueError\<close> when the integer has more
  than \<open>max_str_digits\<close> digits).
\<close>

fun nat_digits :: "nat \<Rightarrow> string" where
  "nat_digits n =
     (if n < 10 then [''0123456789'' ! n]
      else nat_digits (n div 10) @ [''0123456789'' ! (n mod 10)])"

declare nat_digits.simps [simp del]

definition py_str :: "int \<Rightarrow> string" where
  "py_str i = (if i < 0 then CHR ''-'' # nat_digits (nat (- i)) else nat_digits (nat i))"

definition str_fits :: "int \<Rightarrow> bool" where
  "str_fits i = (length (nat_digits (nat \<bar>i\<bar>)) \<le> max_str_digits)"

text \<open>\<open>s.encode()\<close>: UTF-8, two bytes for the code points 128 to 255.\<close>

definition encode_char :: "char \<Rightarrow> string" where
  "encode_char c =
     (let n = (of_char c :: nat) in
      if n < 128 then [c] else [char_of (192 + n div 64), char_of (128 + n mod 64)])"

definition encode :: "string \<Rightarrow> string" where
  "encode s = concat (map encode_char s)"

section \<open>Sockets, the session and outcomes\<close>

datatype error = FTPError string | ValueError | IndexError | AttributeError | OSError | SSLError

datatype FTPMode = ACTIVE | PASSIVE

record FTPConfig =
  host :: string
  port :: int
  username :: string
  password :: string
  timeout :: real
  mode :: FTPMode
  secure :: bool

text \<open>
  What a stream delivers, call by call: data, or a failure of the transport (a timeout, a
  reset). After the last event the stream is at end of file.
\<close>

datatype io_event = Data string | Fault

text \<open>
  A socket object: where it was told to connect and whether the connection stands (a
  socket that is not connected fails every transfer), the host name its TLS upgrade was
  validated against (if it was upgraded), the host names the peer's certificate is valid
  for, what the peer will deliver, which of the coming \<open>sendall\<close> calls fail
  (\<open>True\<close>; none once the list is used up), the payloads written so far, whether
  \<open>close()\<close> was called on the object, and the number of readers made from it by
  \<open>makefile\<close> that are still open. A connection is released by \<open>close()\<close> only
  when no such reader is left.
\<close>

record sock =
  peer :: "string \<times> int"
  sock_timeout :: "real option"
  is_connected :: bool
  server_hostname :: "string option"
  peer_certs :: "string list"
  inbound :: "io_event list"
  send_faults :: "bool list"
  sent :: "string list"
  is_closed :: bool
  io_refs :: nat

text \<open>
  The network, as the client meets it: the behaviour of the servers it will connect to,
  one entry for each coming \<open>connect\<close> call (no entry: nothing answers).
  \<open>cert_names\<close> are the host names the server's certificate is valid for.
\<close>

record endpoint =
  accepts :: bool
  cert_names :: "string list"
  delivers :: "io_event list"
  faults :: "bool list"

text \<open>
  \<open>FTPEntry\<close>; its field \<open>size\<close> is \<open>fsize\<close> here, and \<open>modified\<close>, a
  \<open>datetime\<close>, is never set by the code.
\<close>

typedecl datetime

record FTPEntry =
  name :: string
  fsize :: int
  modified :: "datetime option"
  is_dir :: bool
  permissions :: string
  raw :: string

text \<open>
  The \<open>FTPClient\<close> object with its environment: \<open>socket\<close> is \<open>self._socket\<close>,
  \<open>rfile\<close> is \<open>self._file\<close> (the text reader made from the control socket, as the
  lines it will deliver), \<open>data_socks\<close> are the data sockets created so far (a data socket
  is named by its position there), \<open>fs\<close> is the local file system and \<open>unwritable\<close>
  the local paths that cannot be opened for writing. Local paths are opaque keys.
\<close>

record client =
  config :: FTPConfig
  socket :: "sock option"
  rfile :: "io_event list option"
  net :: "endpoint list"
  data_socks :: "sock list"
  fs :: "string \<rightharpoonup> string"
  unwritable :: "string list"

text \<open>A call returns a value or raises, in both cases leaving a state of the client.\<close>

datatype 'a result = Returns 'a client | Raises error client

fun state_of :: "'a result \<Rightarrow> client" where
  "state_of (Returns _ s) = s"
| "state_of (Raises _ s) = s"

text \<open>The defaults of the \<open>FTPConfig\<close> dataclass: an absent argument is \<open>None\<close>.\<close>

definition FTPConfig_init ::
  "string \<Rightarrow> int option \<Rightarrow> string option \<Rightarrow> string option \<Rightarrow> real option \<Rightarrow>
   FTPMode option \<Rightarrow> bool option \<Rightarrow> FTPConfig" where
  "FTPConfig_init h p u pw t m sec =
     \<lparr>host = h,
      port = (case p of None \<Rightarrow> 21 | Some x \<Rightarrow> x),
      username = (case u of None \<Rightarrow> ''anonymous'' | Some x \<Rightarrow> x),
      password = (case pw of None \<Rightarrow> ''anonymous@'' | Some x \<Rightarrow> x),
      timeout = (case t of None \<Rightarrow> 30 | Some x \<Rightarrow> x),
      mode = (case m of None \<Rightarrow> PASSIVE | Some x \<Rightarrow> x),
      secure = (case sec of None \<Rightarrow> False | Some x \<Rightarrow> x)\<rparr>"

text \<open>
  \<open>FTPClient.__init__\<close>, in a world given by the network, the local file system and the
  unwritable paths.
\<close>

definition FTPClient_init ::
  "FTPConfig \<Rightarrow> endpoint list \<Rightarrow> (string \<rightharpoonup> string) \<Rightarrow> string list \<Rightarrow> client" where
  "FTPClient_init cfg world files ro =
     \<lparr>config = cfg, socket = None, rfile = None, net = world, data_socks = [],
      fs = files, unwritable = ro\<rparr>"

section \<open>Socket operations\<close>

text \<open>
  \<open>socket.socket(); settimeout(t); connect(addr)\<close>: the next endpoint of the network
  decides whether the connection is made and how the peer behaves.
\<close>

definition open_socket :: "endpoint list \<Rightarrow> real \<Rightarrow> string \<times> int \<Rightarrow> sock \<times> endpoint list" where
  "open_socket world t addr =
     (case world of
        [] \<Rightarrow>
          (\<lparr>peer = addr, sock_timeout = Some t, is_connected = False, server_hostname = None,
            peer_certs = [], inbound = [], send_faults = [], sent = [],
            is_closed = False, io_refs = 0\<rparr>, [])
      | ep # eps \<Rightarrow>
          (\<lparr>peer = addr, sock_timeout = Some t, is_connected = accepts ep,
            server_hostname = None, peer_certs = cert_names ep, inbound = delivers ep,
            send_faults = faults ep, sent = [], is_closed = False, io_refs = 0\<rparr>, eps))"

text \<open>
  \<open>context.wrap_socket(sock, server_hostname=h)\<close> with the default context: the
  handshake succeeds when the peer's certificate is valid for \<open>h\<close>; when it fails the
  library closes the socket and raises.
\<close>

definition wrap_socket :: "sock \<Rightarrow> string \<Rightarrow> sock + sock" where
  "wrap_socket k h =
     (if h \<in> set (peer_certs k) then Inr (k\<lparr>server_hostname := Some h\<rparr>)
      else Inl (k\<lparr>is_connected := False, is_closed := True\<rparr>))"

text \<open>
  \<open>sock.close()\<close>: the object is marked closed; the connection is released, and the
  socket is of no further use, unless a reader made by \<open>makefile\<close> is still open.
\<close>

definition sock_close :: "sock \<Rightarrow> sock" where
  "sock_close k =
     (if io_refs k = 0 then k\<lparr>is_connected := False, is_closed := True\<rparr>
      else k\<lparr>is_closed := True\<rparr>)"

text \<open>\<open>sock.sendall(payload)\<close>: \<open>False\<close> when it raises.\<close>

definition sock_sendall :: "sock \<Rightarrow> string \<Rightarrow> bool \<times> sock" where
  "sock_sendall k payload =
     (if \<not> is_connected k then (False, k)
      else case send_faults k of
             [] \<Rightarrow> (True, k\<lparr>sent := sent k @ [payload]\<rparr>)
           | True # later \<Rightarrow> (False, k\<lparr>send_faults := later\<rparr>)
           | False # later \<Rightarrow> (True, k\<lparr>send_faults := later, sent := sent k @ [payload]\<rparr>))"

text \<open>
  \<open>sock.recv(n)\<close>: at most \<open>n\<close> bytes of what the peer delivered, the empty string at
  end of file, \<open>None\<close> when it raises.
\<close>

definition sock_recv :: "sock \<Rightarrow> nat \<Rightarrow> string option \<times> sock" where
  "sock_recv k n =
     (if \<not> is_connected k then (None, k)
      else case inbound k of
             [] \<Rightarrow> (Some [], k)
           | Fault # evs \<Rightarrow> (None, k\<lparr>inbound := evs\<rparr>)
           | Data d # evs \<Rightarrow>
               (Some (take n d),
                k\<lparr>inbound := (if length d \<le> n then evs else Data (drop n d) # evs)\<rparr>))"

section \<open>The wire codec\<close>

text \<open>\<open>self._file.readline()\<close>: at end of file it returns the empty string.\<close>

definition readline :: "client \<Rightarrow> string result" where
  "readline s =
     (case rfile s of
        None \<Rightarrow> Raises AttributeError s
      | Some [] \<Rightarrow> Returns [] s
      | Some (Fault # evs) \<Rightarrow> Raises OSError (s\<lparr>rfile := Some evs\<rparr>)
      | Some (Data l # evs) \<Rightarrow> Returns l (s\<lparr>rfile := Some evs\<rparr>))"

text \<open>
  The loop of \<open>_read_response\<close>. It ends only at a line with a space in its 4th column,
  so it may run forever: \<open>None\<close> is the loop that does not return.
\<close>

definition terminator :: "string \<Rightarrow> bool" where
  "terminator line = (length line \<ge> 4 \<and> line ! 3 = CHR '' '')"

partial_function (option) read_loop :: "client \<Rightarrow> string list \<Rightarrow> string list result option" where
  "read_loop s lines =
     (case readline s of
        Raises e s' \<Rightarrow> Some (Raises e s')
      | Returns l s' \<Rightarrow>
          (if terminator (rstrip [CR, LF] l)
           then Some (Returns (lines @ [rstrip [CR, LF] l]) s')
           else read_loop s' (lines @ [rstrip [CR, LF] l])))"

definition read_response :: "client \<Rightarrow> (int \<times> string) result option" where
  "read_response s =
     (case read_loop s [] of
        None \<Rightarrow> None
      | Some (Raises e s') \<Rightarrow> Some (Raises e s')
      | Some (Returns lines s') \<Rightarrow>
          (if lines = [] then Some (Raises IndexError s')
           else case py_int (take 3 (last lines)) of
                  None \<Rightarrow> Some (Raises ValueError s')
                | Some code \<Rightarrow> Some (Returns (code, join [LF] lines) s')))"

text \<open>\<open>self._socket.sendall(payload)\<close> on the control socket.\<close>

definition sendall :: "client \<Rightarrow> string \<Rightarrow> unit result" where
  "sendall s payload =
     (case socket s of
        None \<Rightarrow> Raises AttributeError s
      | Some k \<Rightarrow>
          (case sock_sendall k payload of
             (True, k') \<Rightarrow> Returns () (s\<lparr>socket := Some k'\<rparr>)
           | (False, k') \<Rightarrow> Raises OSError (s\<lparr>socket := Some k'\<rparr>)))"

text \<open>
  \<open>_command(cmd, expect)\<close>. An absent \<open>expect\<close> is \<open>None\<close>; like \<open>None\<close>, an
  \<open>expect\<close> of 0 is false in the test \<open>if expect and code != expect\<close>.
\<close>

definition command :: "client \<Rightarrow> string \<Rightarrow> int option \<Rightarrow> (int \<times> string) result option" where
  "command s cmd expect =
     (case sendall s (encode (cmd @ [CR, LF])) of
        Raises e s1 \<Rightarrow> Some (Raises e s1)
      | Returns _ s1 \<Rightarrow>
          (case read_response s1 of
             None \<Rightarrow> None
           | Some (Raises e s2) \<Rightarrow> Some (Raises e s2)
           | Some (Returns (code, message) s2) \<Rightarrow>
               (case expect of
                  None \<Rightarrow> Some (Returns (code, message) s2)
                | Some ex \<Rightarrow>
                    if ex \<noteq> 0 \<and> code \<noteq> ex
                    then if str_fits ex \<and> str_fits code
                         then Some (Raises (FTPError (''Expected '' @ py_str ex @ '', got '' @
                                      py_str code @ '': '' @ message)) s2)
                         else Some (Raises ValueError s2)
                    else Some (Returns (code, message) s2))))"

section \<open>The session\<close>

text \<open>
  \<open>FTPClient.connect\<close>. The reader made by \<open>makefile\<close> takes over what the control
  socket delivers and is counted in \<open>io_refs\<close>; nothing in the code closes it. When the
  TLS upgrade fails, \<open>self._socket\<close> is still the socket that was handed to the library.
\<close>

definition connect :: "client \<Rightarrow> unit result option" where
  "connect s =
     (case open_socket (net s) (timeout (config s)) (host (config s), port (config s)) of
        (k, world) \<Rightarrow>
          if \<not> is_connected k then Some (Raises OSError (s\<lparr>socket := Some k, net := world\<rparr>))
          else
            (case (if secure (config s) then wrap_socket k (host (config s)) else Inr k) of
               Inl k' \<Rightarrow> Some (Raises SSLError (s\<lparr>socket := Some k', net := world\<rparr>))
             | Inr k' \<Rightarrow>
                 (case read_response (s\<lparr>socket := Some (k'\<lparr>inbound := [], io_refs := 1\<rparr>),
                                        rfile := Some (inbound k'), net := world\<rparr>) of
                    None \<Rightarrow> None
                  | Some (Raises e s1) \<Rightarrow> Some (Raises e s1)
                  | Some (Returns _ s1) \<Rightarrow>
                      (case command s1 (''USER '' @ username (config s1)) None of
                         None \<Rightarrow> None
                       | Some (Raises e s2) \<Rightarrow> Some (Raises e s2)
                       | Some (Returns _ s2) \<Rightarrow>
                           (case command s2 (''PASS '' @ password (config s2)) None of
                              None \<Rightarrow> None
                            | Some (Raises e s3) \<Rightarrow> Some (Raises e s3)
                            | Some (Returns _ s3) \<Rightarrow> Some (Returns () s3))))))"



text \<open>\<open>s.split()\<close>: the words between runs of white space.\<close>

function split_all :: "string \<Rightarrow> string list" where
  "split_all s =
     (if dropWhile isspace s = [] then []
      else takeWhile (\<lambda>c. \<not> isspace c) (dropWhile isspace s) #
           split_all (dropWhile (\<lambda>c. \<not> isspace c) (dropWhile isspace s)))"
  by pat_completeness auto
termination
proof (relation "measure length")
  show "wf (measure length)" by simp
next
  fix s :: string
  assume ne: "dropWhile isspace s \<noteq> []"
  then obtain c r where w: "dropWhile isspace s = c # r" by (cases "dropWhile isspace s") auto
  have "\<not> isspace c" using hd_dropWhile[OF ne] w by simp
  then have "dropWhile (\<lambda>c. \<not> isspace c) (c # r) = dropWhile (\<lambda>c. \<not> isspace c) r" by simp
  moreover have "length (dropWhile (\<lambda>c. \<not> isspace c) r) \<le> length r" by (rule length_dropWhile_le)
  moreover have "length (c # r) \<le> length s" unfolding w[symmetric] by (rule length_dropWhile_le)
  ultimately show "(dropWhile (\<lambda>c. \<not> isspace c) (dropWhile isspace s), s) \<in> measure length"
    using w by simp
qed

declare split_all.simps [simp del]

text \<open>
  \<open>s.split(None, n)\<close>: at most \<open>n\<close> splits; what is left after them, without its
  leading white space, is the last field.
\<close>

fun split_max :: "nat \<Rightarrow> string \<Rightarrow> string list" where
  "split_max 0 s = (if dropWhile isspace s = [] then [] else [dropWhile isspace s])"
| "split_max (Suc n) s =
     (if dropWhile isspace s = [] then []
      else takeWhile (\<lambda>c. \<not> isspace c) (dropWhile isspace s) #
           split_max n (dropWhile (\<lambda>c. \<not> isspace c) (dropWhile isspace s)))"

text \<open>\<open>s.isdigit()\<close> and \<open>s.startswith(p)\<close>.\<close>

definition isdigit :: "string \<Rightarrow> bool" where
  "isdigit s = (s \<noteq> [] \<and> list_all isdigit_char s)"

definition startswith :: "string \<Rightarrow> string \<Rightarrow> bool" where
  "startswith s p = (take (length p) s = p)"

text \<open>\<open>s.splitlines()\<close>, with the line boundaries below code point 256.\<close>

definition linebreak :: "char \<Rightarrow> bool" where
  "linebreak c = (c \<in> set [CHR 0x0A, CHR 0x0B, CHR 0x0C, CHR 0x0D, CHR 0x1C, CHR 0x1D,
                            CHR 0x1E, CHR 0x85])"

fun splitlines_from :: "string \<Rightarrow> string \<Rightarrow> string list" where
  "splitlines_from cur [] = (if cur = [] then [] else [cur])"
| "splitlines_from cur [c] = (if linebreak c then [cur] else [cur @ [c]])"
| "splitlines_from cur (c # d # cs) =
     (if c = CR \<and> d = LF then cur # splitlines_from [] cs
      else if linebreak c then cur # splitlines_from [] (d # cs)
      else splitlines_from (cur @ [c]) (d # cs))"

definition splitlines :: "string \<Rightarrow> string list" where
  "splitlines s = splitlines_from [] s"

definition size_ftp :: "client \<Rightarrow> string \<Rightarrow> int result option" where
  "size_ftp s path =
     (case command s (''SIZE '' @ path) None of
        None \<Rightarrow> None
      | Some (Raises e s1) \<Rightarrow> Some (Raises e s1)
      | Some (Returns (code, msg) s1) \<Rightarrow>
          if code = 213 then
            (case split_all msg of
               [] \<Rightarrow> Some (Raises IndexError s1)
             | w # ws \<Rightarrow>
                 (case py_int (last (w # ws)) of
                    None \<Rightarrow> Some (Raises ValueError s1)
                  | Some n \<Rightarrow> Some (Returns n s1)))
          else Some (Returns 0 s1))"

text \<open>
  \<open>close()\<close>: whatever the \<open>QUIT\<close> command raises is dropped, then
  \<open>close()\<close> is called on the control socket, if there is one. The reader
  \<open>self._file\<close> is not closed.
\<close>

definition close_socket :: "client \<Rightarrow> client" where
  "close_socket s =
     (case socket s of None \<Rightarrow> s | Some k \<Rightarrow> s\<lparr>socket := Some (sock_close k)\<rparr>)"

definition close :: "client \<Rightarrow> unit result option" where
  "close s =
     (case command s ''QUIT'' None of
        None \<Rightarrow> None
      | Some (Raises e s1) \<Rightarrow> Some (Returns () (close_socket s1))
      | Some (Returns _ s1) \<Rightarrow> Some (Returns () (close_socket s1)))"

section \<open>The passive handshake\<close>

text \<open>
  \<open>re.search\<close> with the pattern of \<open>_pasv\<close>, an opening parenthesis, six groups
  \<open>(\d+)\<close> separated by commas, a closing parenthesis: the leftmost match, as the
  list of its groups. A group is a longest run of digits, since what follows a group in
  the pattern is not a digit.
\<close>

definition match_digits :: "string \<Rightarrow> (string \<times> string) option" where
  "match_digits s =
     (if takeWhile isdecimal s = [] then None
      else Some (takeWhile isdecimal s, dropWhile isdecimal s))"

fun digit_groups :: "nat \<Rightarrow> string \<Rightarrow> (string list \<times> string) option" where
  "digit_groups 0 s =
     (case match_digits s of None \<Rightarrow> None | Some (d, r) \<Rightarrow> Some ([d], r))"
| "digit_groups (Suc n) s =
     (case match_digits s of
        None \<Rightarrow> None
      | Some (d, r) \<Rightarrow>
          (case r of
             [] \<Rightarrow> None
           | c # r' \<Rightarrow>
               if c = CHR '','' then
                 (case digit_groups n r' of None \<Rightarrow> None | Some (ds, r'') \<Rightarrow> Some (d # ds, r''))
               else None))"

definition match_pasv :: "string \<Rightarrow> string list option" where
  "match_pasv s =
     (case s of
        [] \<Rightarrow> None
      | c # r \<Rightarrow>
          if c = CHR ''('' then
            (case digit_groups 5 r of
               None \<Rightarrow> None
             | Some (ds, r') \<Rightarrow>
                 (case r' of [] \<Rightarrow> None | c' # _ \<Rightarrow> if c' = CHR '')'' then Some ds else None))
          else None)"

fun search_pasv :: "string \<Rightarrow> string list option" where
  "search_pasv [] = match_pasv []"
| "search_pasv (c # cs) =
     (case match_pasv (c # cs) of Some ds \<Rightarrow> Some ds | None \<Rightarrow> search_pasv cs)"

definition pasv :: "client \<Rightarrow> (string \<times> int) result option" where
  "pasv s =
     (case command s ''PASV'' None of
        None \<Rightarrow> None
      | Some (Raises e s1) \<Rightarrow> Some (Raises e s1)
      | Some (Returns (code, msg) s1) \<Rightarrow>
          if code \<noteq> 227 then Some (Raises (FTPError (''PASV failed: '' @ msg)) s1)
          else
            (case search_pasv msg of
               None \<Rightarrow> Some (Raises (FTPError ''Invalid PASV response'') s1)
             | Some groups \<Rightarrow>
                 (case those (map py_int groups) of
                    None \<Rightarrow> Some (Raises ValueError s1)
                  | Some parts \<Rightarrow>
                      if length parts < 6 then Some (Raises IndexError s1)
                      else if \<not> list_all str_fits (take 4 parts)
                      then Some (Raises ValueError s1)
                      else Some (Returns (join ''.'' (map py_str (take 4 parts)),
                                          parts ! 4 * 256 + parts ! 5) s1))))"

text \<open>
  \<open>_data_connection\<close>: the new socket is entered in \<open>data_socks\<close>, and the value
  returned is its position there.
\<close>

definition data_connection :: "client \<Rightarrow> nat result option" where
  "data_connection s =
     (case pasv s of
        None \<Rightarrow> None
      | Some (Raises e s1) \<Rightarrow> Some (Raises e s1)
      | Some (Returns (h, p) s1) \<Rightarrow>
          (case open_socket (net s1) (timeout (config s1)) (h, p) of
             (k, world) \<Rightarrow>
               if \<not> is_connected k
               then Some (Raises OSError (s1\<lparr>net := world, data_socks := data_socks s1 @ [k]\<rparr>))
               else if secure (config s1) then
                 (case wrap_socket k (host (config s1)) of
                    Inl k' \<Rightarrow>
                      Some (Raises SSLError
                              (s1\<lparr>net := world, data_socks := data_socks s1 @ [k']\<rparr>))
                  | Inr k' \<Rightarrow>
                      Some (Returns (length (data_socks s1))
                              (s1\<lparr>net := world, data_socks := data_socks s1 @ [k']\<rparr>)))
               else Some (Returns (length (data_socks s1))
                            (s1\<lparr>net := world, data_socks := data_socks s1 @ [k]\<rparr>))))"

section \<open>Data operations\<close>

text \<open>\<open>_parse_list_line\<close>: no entry for an empty line; \<open>int()\<close> may raise.\<close>

definition parse_list_line :: "string \<Rightarrow> error + FTPEntry option" where
  "parse_list_line line =
     (if line = [] then Inr None
      else if length (split_max 8 line) < 9
      then Inr (Some \<lparr>name = line, fsize = 0, modified = None, is_dir = False,
                       permissions = [], raw = line\<rparr>)
      else if isdigit (split_max 8 line ! 4)
      then (case py_int (split_max 8 line ! 4) of
              None \<Rightarrow> Inl ValueError
            | Some n \<Rightarrow>
                Inr (Some \<lparr>name = split_max 8 line ! 8, fsize = n, modified = None,
                           is_dir = startswith (split_max 8 line ! 0) ''d'',
                           permissions = split_max 8 line ! 0, raw = line\<rparr>))
      else Inr (Some \<lparr>name = split_max 8 line ! 8, fsize = 0, modified = None,
                       is_dir = startswith (split_max 8 line ! 0) ''d'',
                       permissions = split_max 8 line ! 0, raw = line\<rparr>))"

text \<open>The loop of \<open>list\<close> over the lines of the listing.\<close>

fun parse_lines :: "string list \<Rightarrow> error + FTPEntry list" where
  "parse_lines [] = Inr []"
| "parse_lines (l # ls) =
     (case parse_list_line l of
        Inl e \<Rightarrow> Inl e
      | Inr None \<Rightarrow> parse_lines ls
      | Inr (Some en) \<Rightarrow>
          (case parse_lines ls of Inl e \<Rightarrow> Inl e | Inr es \<Rightarrow> Inr (en # es)))"

text \<open>
  The receiving loops of \<open>list\<close> and \<open>download\<close>, and the sending loop of
  \<open>upload\<close>. The first component of the result is \<open>False\<close> when the transfer raised.
  They end because each round takes from what the peer delivers, or from the file.
\<close>

fun weight :: "io_event \<Rightarrow> nat" where
  "weight (Data d) = Suc (length d)"
| "weight Fault = 1"

function recv_all :: "sock \<Rightarrow> string \<Rightarrow> bool \<times> string \<times> sock" where
  "recv_all k data =
     (case sock_recv k 8192 of
        (None, k') \<Rightarrow> (False, data, k')
      | (Some chunk, k') \<Rightarrow>
          if chunk = [] then (True, data, k') else recv_all k' (data @ chunk))"
  by pat_completeness auto
termination
proof (relation "measure (\<lambda>(k, data). sum_list (map weight (inbound k)))")
  show "wf (measure (\<lambda>(k, data). sum_list (map weight (inbound k))))" by simp
next
  fix k :: sock and data :: string and x y chunk
  assume "(x, y) = sock_recv k 8192" "x = Some chunk" "chunk \<noteq> []"
  then show "((y, data @ chunk), k, data)
             \<in> measure (\<lambda>(k, data). sum_list (map weight (inbound k)))"
    by (auto simp: sock_recv_def split: if_splits list.splits io_event.splits)
qed

declare recv_all.simps [simp del]

function download_loop :: "sock \<Rightarrow> string \<Rightarrow> int \<Rightarrow> bool \<times> string \<times> int \<times> sock" where
  "download_loop k written tot =
     (case sock_recv k 8192 of
        (None, k') \<Rightarrow> (False, written, tot, k')
      | (Some chunk, k') \<Rightarrow>
          if chunk = [] then (True, written, tot, k')
          else download_loop k' (written @ chunk) (tot + int (length chunk)))"
  by pat_completeness auto
termination
proof (relation "measure (\<lambda>(k, written, tot). sum_list (map weight (inbound k)))")
  show "wf (measure (\<lambda>(k, written, tot). sum_list (map weight (inbound k))))" by simp
next
  fix k :: sock and written :: string and tot :: int and x y chunk
  assume "(x, y) = sock_recv k 8192" "x = Some chunk" "chunk \<noteq> []"
  then show "((y, written @ chunk, tot + int (length chunk)), k, written, tot)
             \<in> measure (\<lambda>(k, written, tot). sum_list (map weight (inbound k)))"
    by (auto simp: sock_recv_def split: if_splits list.splits io_event.splits)
qed

declare download_loop.simps [simp del]

function upload_loop :: "sock \<Rightarrow> string \<Rightarrow> int \<Rightarrow> bool \<times> int \<times> sock" where
  "upload_loop k unread tot =
     (if take 8192 unread = [] then (True, tot, k)
      else case sock_sendall k (take 8192 unread) of
             (False, k') \<Rightarrow> (False, tot, k')
           | (True, k') \<Rightarrow>
               upload_loop k' (drop 8192 unread) (tot + int (length (take 8192 unread))))"
  by pat_completeness auto
termination
  by (relation "measure (\<lambda>(k, unread, tot). length unread)") auto

declare upload_loop.simps [simp del]

text \<open>
  \<open>list(path)\<close>. The UTF-8 decoder with replacement of undecodable bytes is the
  parameter \<open>decode\<close>.
\<close>

definition list :: "(string \<Rightarrow> string) \<Rightarrow> client \<Rightarrow> string \<Rightarrow> FTPEntry list result option" where
  "list decode s path =
     (case data_connection s of
        None \<Rightarrow> None
      | Some (Raises e s1) \<Rightarrow> Some (Raises e s1)
      | Some (Returns n s1) \<Rightarrow>
          (case command s1 (if path \<noteq> [] then ''LIST '' @ path else ''LIST'') None of
             None \<Rightarrow> None
           | Some (Raises e s2) \<Rightarrow> Some (Raises e s2)
           | Some (Returns _ s2) \<Rightarrow>
               (case recv_all (data_socks s2 ! n) [] of
                  (False, data, k') \<Rightarrow>
                    Some (Raises OSError (s2\<lparr>data_socks := (data_socks s2)[n := k']\<rparr>))
                | (True, data, k') \<Rightarrow>
                    (case read_response
                            (s2\<lparr>data_socks := (data_socks s2)[n := sock_close k']\<rparr>) of
                       None \<Rightarrow> None
                     | Some (Raises e s3) \<Rightarrow> Some (Raises e s3)
                     | Some (Returns _ s3) \<Rightarrow>
                         (case parse_lines (splitlines (decode data)) of
                            Inl e \<Rightarrow> Some (Raises e s3)
                          | Inr entries \<Rightarrow> Some (Returns entries s3))))))"

text \<open>
  \<open>download(remote, local)\<close>: the local file is created empty when it is opened, holds
  what was written when the \<open>with\<close> block is left, and is closed there on every path.
  Opening the file may fail; a failure of \<open>f.write\<close> is not modelled. The calls of
  \<open>logger.debug\<close> have no effect on the session and are left out everywhere.
\<close>

definition download :: "client \<Rightarrow> string \<Rightarrow> string \<Rightarrow> int result option" where
  "download s remote local =
     (case data_connection s of
        None \<Rightarrow> None
      | Some (Raises e s1) \<Rightarrow> Some (Raises e s1)
      | Some (Returns n s1) \<Rightarrow>
          (case command s1 ''TYPE I'' None of
             None \<Rightarrow> None
           | Some (Raises e s2) \<Rightarrow> Some (Raises e s2)
           | Some (Returns _ s2) \<Rightarrow>
               (case command s2 (''RETR '' @ remote) None of
                  None \<Rightarrow> None
                | Some (Raises e s3) \<Rightarrow> Some (Raises e s3)
                | Some (Returns _ s3) \<Rightarrow>
                    if local \<in> set (unwritable s3) then Some (Raises OSError s3)
                    else
                      (case download_loop (data_socks s3 ! n) [] 0 of
                         (False, written, tot, k') \<Rightarrow>
                           Some (Raises OSError
                                   (s3\<lparr>data_socks := (data_socks s3)[n := k'],
                                       fs := (fs s3)(local \<mapsto> written)\<rparr>))
                       | (True, written, tot, k') \<Rightarrow>
                           (case read_response
                                   (s3\<lparr>data_socks :=
                                          (data_socks s3)[n := sock_close k'],
                                       fs := (fs s3)(local \<mapsto> written)\<rparr>) of
                              None \<Rightarrow> None
                            | Some (Raises e s4) \<Rightarrow> Some (Raises e s4)
                            | Some (Returns _ s4) \<Rightarrow> Some (Returns tot s4))))))"

definition upload :: "client \<Rightarrow> string \<Rightarrow> string \<Rightarrow> int result option" where
  "upload s local remote =
     (case data_connection s of
        None \<Rightarrow> None
      | Some (Raises e s1) \<Rightarrow> Some (Raises e s1)
      | Some (Returns n s1) \<Rightarrow>
          (case command s1 ''TYPE I'' None of
             None \<Rightarrow> None
           | Some (Raises e s2) \<Rightarrow> Some (Raises e s2)
           | Some (Returns _ s2) \<Rightarrow>
               (case command s2 (''STOR '' @ remote) None of
                  None \<Rightarrow> None
                | Some (Raises e s3) \<Rightarrow> Some (Raises e s3)
                | Some (Returns _ s3) \<Rightarrow>
                    (case fs s3 local of
                       None \<Rightarrow> Some (Raises OSError s3)
                     | Some content \<Rightarrow>
                         (case upload_loop (data_socks s3 ! n) content 0 of
                            (False, tot, k') \<Rightarrow>
                              Some (Raises OSError
                                      (s3\<lparr>data_socks := (data_socks s3)[n := k']\<rparr>))
                          | (True, tot, k') \<Rightarrow>
                              (case read_response
                                      (s3\<lparr>data_socks :=
                                             (data_socks s3)[n := sock_close k']\<rparr>) of
                                 None \<Rightarrow> None
                               | Some (Raises e s4) \<Rightarrow> Some (Raises e s4)
                               | Some (Returns _ s4) \<Rightarrow> Some (Returns tot s4)))))))"

section \<open>Stub sessions\<close>

text \<open>
  A connected session over a stub control channel: it delivers the given events to the
  reader and records what is sent. \<open>reply\<close> is one line of a server reply on the wire.
\<close>

definition reply :: "string \<Rightarrow> io_event" where
  "reply l = Data (l @ [CR, LF])"

definition stub_config :: FTPConfig where
  "stub_config =
     FTPConfig_init ''ftp.example.com'' None (Some ''user'') (Some ''pass'') None None None"

definition stub_client :: "FTPConfig \<Rightarrow> io_event list \<Rightarrow> endpoint list \<Rightarrow> client" where
  "stub_client cfg evs world =
     \<lparr>config = cfg,
      socket = Some \<lparr>peer = (host cfg, port cfg), sock_timeout = Some (timeout cfg),
                     is_connected = True, server_hostname = None, peer_certs = [],
                     inbound = [], send_faults = [], sent = [],
                     is_closed = False, io_refs = 1\<rparr>,
      rfile = Some evs, net = world, data_socks = [], fs = Map.empty, unwritable = []\<rparr>"

text \<open>What the stub control channel recorded: the payloads sent on the control socket.\<close>

definition sent_of :: "client \<Rightarrow> string list" where
  "sent_of s = (case socket s of None \<Rightarrow> [] | Some k \<Rightarrow> sent k)"

text \<open>The session \<open>s\<close> after its control socket has recorded the payloads \<open>ps\<close>.\<close>

definition recorded :: "client \<Rightarrow> string list \<Rightarrow> client" where
  "recorded s ps = s\<lparr>socket := map_option (\<lambda>k. k\<lparr>sent := ps\<rparr>) (socket s)\<rparr>"

section \<open>What the passive reply must contain\<close>

text \<open>
  The words of the specification, to be compared with the search above: a group of
  digits is a non-empty run of decimal digits; the message holds a parenthesized group of
  six comma-separated integers at position \<open>i\<close> when an opening parenthesis, six groups
  of digits separated by commas and a closing parenthesis start there; the first such
  group is the one at the least position.
\<close>

definition digit_group :: "string \<Rightarrow> bool" where
  "digit_group d = (d \<noteq> [] \<and> list_all isdecimal d)"

definition six_group_at :: "string \<Rightarrow> nat \<Rightarrow> string list \<Rightarrow> bool" where
  "six_group_at msg i ds =
     (i \<le> length msg \<and> length ds = 6 \<and> list_all digit_group ds \<and>
      (\<exists>post. drop i msg = ''('' @ join '','' ds @ '')'' @ post))"

definition has_six_group :: "string \<Rightarrow> bool" where
  "has_six_group msg = (\<exists>i ds. six_group_at msg i ds)"

definition first_six_group :: "string \<Rightarrow> string list \<Rightarrow> bool" where
  "first_six_group msg ds =
     (\<exists>i. six_group_at msg i ds \<and> (\<forall>j < i. \<forall>ds'. \<not> six_group_at msg j ds'))"

text \<open>The address and the port that six groups of digits denote.\<close>

definition pasv_address :: "string list \<Rightarrow> string" where
  "pasv_address ds = join ''.'' (map (\<lambda>d. py_str (int (dec_val d))) (take 4 ds))"

definition pasv_port :: "string list \<Rightarrow> int" where
  "pasv_port ds = int (dec_val (ds ! 4)) * 256 + int (dec_val (ds ! 5))"


definition data_server :: "string list \<Rightarrow> io_event list \<Rightarrow> endpoint" where
  "data_server names evs = \<lparr>accepts = True, cert_names = names, delivers = evs, faults = []\<rparr>"

section \<open>Integer literals\<close>

lemma isdecimal_not_space: "isdecimal c \<Longrightarrow> \<not> int_space c"
  by (auto simp: isdecimal_def int_space_def)

lemma isdecimal_not_sign:
  "isdecimal c \<Longrightarrow>
   c \<noteq> CHR ''-'' \<and> c \<noteq> CHR ''+'' \<and> c \<noteq> CHR ''_'' \<and> c \<noteq> CHR '','' \<and> c \<noteq> CHR '')''"
  by (auto simp: isdecimal_def)

lemma strip_class_id:
  assumes "s \<noteq> []" "\<not> p (hd s)" "\<not> p (last s)"
  shows "strip_class p s = s"
proof -
  from assms obtain c r where s: "s = c # r" by (cases s) auto
  with assms have 1: "dropWhile p s = s" by simp
  from assms have "rev s \<noteq> []" "\<not> p (hd (rev s))" by (simp_all add: hd_rev)
  then have "dropWhile p (rev s) = rev s" by (cases "rev s") auto
  with 1 show ?thesis by (simp add: strip_class_def)
qed

lemma int_digits_decimal:
  "ds \<noteq> [] \<Longrightarrow> list_all isdecimal ds \<Longrightarrow> int_digits ds = Some ds"
proof (induction ds rule: int_digits.induct)
  case 1
  then show ?case by simp
next
  case (2 c)
  then show ?case by simp
next
  case (3 c d cs)
  then show ?case using isdecimal_not_sign[of d] by simp
qed

lemma py_int_digits:
  assumes "ds \<noteq> []" "list_all isdecimal ds"
  shows "py_int ds = map_option (\<lambda>ds. int (dec_val ds)) (limited (Some ds))"
proof -
  from assms have h: "isdecimal (hd ds)" "isdecimal (last ds)"
    by (auto simp: list_all_iff)
  then have "strip_class int_space ds = ds"
    using assms(1) by (intro strip_class_id) (auto dest: isdecimal_not_space)
  moreover obtain c r where "ds = c # r" using assms(1) by (cases ds) auto
  ultimately show ?thesis
    using h(1) isdecimal_not_sign[of c] int_digits_decimal[OF assms]
    by (simp add: py_int_def)
qed

lemma py_int_decimal:
  assumes "ds \<noteq> []" "list_all isdecimal ds" "length ds \<le> max_str_digits"
  shows "py_int ds = Some (int (dec_val ds))"
  using py_int_digits[OF assms(1,2)] assms(3) by (simp add: limited_def)

lemma py_int_too_long:
  assumes "list_all isdecimal ds" "max_str_digits < length ds"
  shows "py_int ds = None"
proof -
  from assms(2) have "ds \<noteq> []" by auto
  from py_int_digits[OF this assms(1)] assms(2) show ?thesis by (simp add: limited_def)
qed

text \<open>An integer that \<open>int()\<close> has read can be converted back by \<open>str()\<close>.\<close>

lemma digit_val_le: "isdecimal c \<Longrightarrow> digit_val c \<le> 9"
  by (auto simp: isdecimal_def digit_val_def)

lemma dec_val_snoc: "dec_val (ds @ [c]) = 10 * dec_val ds + digit_val c"
  by (simp add: dec_val_def)

lemma dec_val_bound: "list_all isdecimal ds \<Longrightarrow> dec_val ds < 10 ^ length ds"
proof (induction ds rule: rev_induct)
  case Nil
  then show ?case by (simp add: dec_val_def)
next
  case (snoc c ds)
  then have "dec_val ds < 10 ^ length ds" "digit_val c \<le> 9"
    by (simp_all add: digit_val_le)
  then have "10 * dec_val ds + digit_val c < 10 * 10 ^ length ds" by linarith
  then show ?case by (simp add: dec_val_snoc)
qed

lemma nat_digits_length: "0 < k \<Longrightarrow> n < 10 ^ k \<Longrightarrow> length (nat_digits n) \<le> k"
proof (induction k arbitrary: n)
  case 0
  then show ?case by simp
next
  case (Suc k)
  show ?case
  proof (cases "n < 10")
    case True
    then show ?thesis by (subst nat_digits.simps) simp
  next
    case False
    with Suc.prems have k: "0 < k"
      by (cases k) auto
    from Suc.prems have "n div 10 < 10 ^ k"
      by (simp add: less_mult_imp_div_less mult.commute)
    from Suc.IH[OF k this] False show ?thesis by (subst nat_digits.simps) simp
  qed
qed


lemma limited_props: "limited d = Some ds \<Longrightarrow> d = Some ds \<and> length ds \<le> max_str_digits"
  by (auto simp: limited_def split: option.splits if_splits)

lemma py_int_parts:
  assumes "py_int t = Some n"
  shows "\<exists>c r ds. strip_class int_space t = c # r \<and>
           (int_digits r = Some ds \<or> int_digits (c # r) = Some ds) \<and>
           length ds \<le> max_str_digits \<and> \<bar>n\<bar> = int (dec_val ds)"
proof -
  obtain c r where cr: "strip_class int_space t = c # r"
    using assms by (cases "strip_class int_space t") (auto simp: py_int_def)
  have "\<exists>ds. (limited (int_digits r) = Some ds \<or> limited (int_digits (c # r)) = Some ds) \<and>
          \<bar>n\<bar> = int (dec_val ds)"
  proof (cases "c = CHR ''-'' \<or> c = CHR ''+''")
    case True
    with assms cr obtain ds where "limited (int_digits r) = Some ds" "\<bar>n\<bar> = int (dec_val ds)"
      by (auto simp: py_int_def)
    then show ?thesis by blast
  next
    case False
    with assms cr obtain ds where "limited (int_digits (c # r)) = Some ds"
      "\<bar>n\<bar> = int (dec_val ds)"
      by (auto simp: py_int_def)
    then show ?thesis by blast
  qed
  then obtain ds where
    ds: "limited (int_digits r) = Some ds \<or> limited (int_digits (c # r)) = Some ds"
    and n: "\<bar>n\<bar> = int (dec_val ds)" by blast
  from ds have "(int_digits r = Some ds \<or> int_digits (c # r) = Some ds) \<and>
      length ds \<le> max_str_digits"
    using limited_props by blast
  with cr n show ?thesis by blast
qed


lemma dec_val_str_fits:
  assumes "ds \<noteq> []" "list_all isdecimal ds" "length ds \<le> max_str_digits"
  shows "str_fits (int (dec_val ds))"
proof -
  have "length (nat_digits (dec_val ds)) \<le> length ds"
    using assms(1) dec_val_bound[OF assms(2)] by (intro nat_digits_length) simp_all
  with assms(3) show ?thesis by (simp add: str_fits_def)
qed


section \<open>Reading a response\<close>

lemma readline_Data:
  "rfile s = Some (Data l # evs) \<Longrightarrow> readline s = Returns l (s\<lparr>rfile := Some evs\<rparr>)"
  by (simp add: readline_def)

lemma readline_eof: "rfile s = Some [] \<Longrightarrow> readline s = Returns [] s"
  by (simp add: readline_def)

lemma read_loop_continue:
  assumes "rfile s = Some (Data l # rest)" "\<not> terminator (rstrip [CR, LF] l)"
  shows "read_loop s acc = read_loop (s\<lparr>rfile := Some rest\<rparr>) (acc @ [rstrip [CR, LF] l])"
  using assms by (subst read_loop.simps) (simp add: readline_Data)

lemma read_loop_stop:
  assumes "rfile s = Some (Data l # rest)" "terminator (rstrip [CR, LF] l)"
  shows "read_loop s acc = Some (Returns (acc @ [rstrip [CR, LF] l]) (s\<lparr>rfile := Some rest\<rparr>))"
  using assms by (subst read_loop.simps) (simp add: readline_Data)

lemma read_loop_stream:
  assumes "rfile s = Some (map Data conts @ Data t # rest)"
    and "\<forall>l \<in> set conts. \<not> terminator (rstrip [CR, LF] l)"
    and "terminator (rstrip [CR, LF] t)"
  shows "read_loop s acc =
         Some (Returns (acc @ map (rstrip [CR, LF]) (conts @ [t])) (s\<lparr>rfile := Some rest\<rparr>))"
  using assms
proof (induction conts arbitrary: s acc)
  case Nil
  then show ?case by (simp add: read_loop_stop)
next
  case (Cons c cs)
  have "read_loop s acc =
        read_loop (s\<lparr>rfile := Some (map Data cs @ Data t # rest)\<rparr>) (acc @ [rstrip [CR, LF] c])"
    using Cons.prems by (intro read_loop_continue) simp_all
  also have "\<dots> = Some (Returns ((acc @ [rstrip [CR, LF] c]) @ map (rstrip [CR, LF]) (cs @ [t]))
                 (s\<lparr>rfile := Some (map Data cs @ Data t # rest)\<rparr>\<lparr>rfile := Some rest\<rparr>))"
    using Cons.prems by (intro Cons.IH) simp_all
  finally show ?case by simp
qed



lemma readline_frame: "\<exists>f. state_of (readline s) = s\<lparr>rfile := f\<rparr>"
proof (cases "rfile s")
  case None
  then have "state_of (readline s) = s\<lparr>rfile := rfile s\<rparr>" by (simp add: readline_def)
  then show ?thesis by blast
next
  case (Some evs)
  show ?thesis
  proof (cases evs)
    case Nil
    with Some have "state_of (readline s) = s\<lparr>rfile := rfile s\<rparr>" by (simp add: readline_def)
    then show ?thesis by blast
  next
    case (Cons ev more)
    with Some show ?thesis by (cases ev) (auto simp: readline_def)
  qed
qed

lemma read_loop_frame:
  assumes "read_loop s acc = Some r"
  shows "\<exists>f. state_of r = s\<lparr>rfile := f\<rparr>"
proof (rule read_loop.raw_induct[where P = "\<lambda>s acc r. \<exists>f. state_of r = s\<lparr>rfile := f\<rparr>",
      OF _ assms], goal_cases)
  case (1 g s lines sa)
  obtain f1 where f1: "state_of (readline s) = s\<lparr>rfile := f1\<rparr>" using readline_frame by blast
  show ?case
  proof (cases "readline s")
    case (Raises e s1)
    with 1(2) f1 show ?thesis by auto
  next
    case (Returns l s1)
    with f1 have s1: "s1 = s\<lparr>rfile := f1\<rparr>" by simp
    show ?thesis
    proof (cases "terminator (rstrip [CR, LF] l)")
      case True
      with 1(2) Returns s1 show ?thesis by auto
    next
      case False
      with 1(2) Returns have "g s1 (lines @ [rstrip [CR, LF] l]) = Some sa" by simp
      from 1(1)[OF this] obtain f where "state_of sa = s1\<lparr>rfile := f\<rparr>" by blast
      with s1 have "state_of sa = s\<lparr>rfile := f\<rparr>" by simp
      then show ?thesis by blast
    qed
  qed
qed

text \<open>At end of file the loop reads empty lines forever.\<close>

lemma read_loop_eof_aux:
  assumes "read_loop s acc = Some r"
  shows "rfile s \<noteq> Some []"
proof (rule read_loop.raw_induct[where P = "\<lambda>s acc r. rfile s \<noteq> Some []", OF _ assms],
    goal_cases)
  case (1 f s lines sa)
  show ?case
  proof
    assume e: "rfile s = Some []"
    have "\<not> terminator (rstrip [CR, LF] [])" by (simp add: terminator_def rstrip_def)
    with 1(2) e have "f s (lines @ [rstrip [CR, LF] []]) = Some sa"
      by (simp add: readline_eof)
    from 1(1)[OF this] e show False by simp
  qed
qed

lemma read_loop_eof: "rfile s = Some [] \<Longrightarrow> read_loop s acc = None"
  using read_loop_eof_aux[of s acc] by (cases "read_loop s acc") auto

lemma read_response_stream:
  assumes "rfile s = Some (map Data conts @ Data t # rest)"
    and "\<forall>l \<in> set conts. \<not> terminator (rstrip [CR, LF] l)"
    and "terminator (rstrip [CR, LF] t)"
  shows "read_response s =
         (case py_int (take 3 (rstrip [CR, LF] t)) of
            None \<Rightarrow> Some (Raises ValueError (s\<lparr>rfile := Some rest\<rparr>))
          | Some code \<Rightarrow>
              Some (Returns (code, join [LF] (map (rstrip [CR, LF]) (conts @ [t])))
                      (s\<lparr>rfile := Some rest\<rparr>)))"
  using read_loop_stream[OF assms, of "[]"] by (simp add: read_response_def split: option.split)

lemmas eval_defs = reply_def terminator_def rstrip_def py_int_def strip_class_def int_space_def
  isdecimal_def dec_val_def digit_val_def limited_def max_str_digits_def

text \<open>
  C1 (amended). For every well-formed multi-line response stream, \<open>_read_response\<close>
  consumes the lines up to and including the first line whose 4th character is a space
  (the lines before it are continuation lines) and leaves the rest unread; it returns a
  code equal to the integer formed by the three decimal digits that begin the terminating
  line, and a message equal to the consumed lines, each without its trailing CR and LF
  characters, joined in order by a single LF.
\<close>

theorem read_response_well_formed:
  assumes "rfile s = Some (map Data conts @ Data t # rest)"
    and "\<forall>l \<in> set conts. \<not> terminator (rstrip [CR, LF] l)"
    and "terminator (rstrip [CR, LF] t)"
    and "list_all isdecimal (take 3 (rstrip [CR, LF] t))"
  shows "read_response s =
         Some (Returns (int (dec_val (take 3 (rstrip [CR, LF] t))),
                        join [LF] (map (rstrip [CR, LF]) (conts @ [t])))
                 (s\<lparr>rfile := Some rest\<rparr>))"
proof -
  from assms(3) have "take 3 (rstrip [CR, LF] t) \<noteq> []" by (auto simp: terminator_def)
  moreover have "length (take 3 (rstrip [CR, LF] t)) \<le> max_str_digits"
    by (simp add: max_str_digits_def)
  ultimately show ?thesis
    using py_int_decimal[OF _ assms(4)] read_response_stream[OF assms(1-3)] by simp
qed

theorem read_response_well_formed_witness:
  "read_response (stub_client stub_config
       [reply ''230-Welcome'', reply ''230-to the archive'', reply ''230 Logged in'',
        reply ''200 ok''] []) =
   Some (Returns (230, ''230-Welcome'' @ [LF] @ ''230-to the archive'' @ [LF] @ ''230 Logged in'')
     (stub_client stub_config [reply ''200 ok''] []))"
  using read_response_well_formed[of "stub_client stub_config
       [reply ''230-Welcome'', reply ''230-to the archive'', reply ''230 Logged in'',
        reply ''200 ok''] []"
       "[''230-Welcome'' @ [CR, LF], ''230-to the archive'' @ [CR, LF]]"
       "''230 Logged in'' @ [CR, LF]" "[reply ''200 ok'']"]
  by (simp add: stub_client_def reply_def terminator_def rstrip_def isdecimal_def dec_val_def
      digit_val_def)

text \<open>
  The message of a two-line response is neither the concatenation of its lines nor the
  concatenation of the lines as they were on the wire.
\<close>

theorem read_response_concatenation_counterexample:
  "read_response (stub_client stub_config [reply ''220-Hi'', reply ''220 ok''] []) =
     Some (Returns (220, ''220-Hi'' @ [LF] @ ''220 ok'') (stub_client stub_config [] []))
   \<and> ''220-Hi'' @ [LF] @ ''220 ok'' \<noteq> concat [''220-Hi'', ''220 ok'']
   \<and> ''220-Hi'' @ [LF] @ ''220 ok'' \<noteq> concat [''220-Hi'' @ [CR, LF], ''220 ok'' @ [CR, LF]]"
  using read_response_stream[of "stub_client stub_config [reply ''220-Hi'', reply ''220 ok''] []"
       "[''220-Hi'' @ [CR, LF]]" "''220 ok'' @ [CR, LF]" "[]"]
  by (simp add: stub_client_def eval_defs)




section \<open>Commands\<close>

lemma read_response_frame:
  assumes "read_response s = Some r"
  shows "\<exists>f. state_of r = s\<lparr>rfile := f\<rparr>"
proof -
  from assms obtain r0 where r0: "read_loop s [] = Some r0" "state_of r = state_of r0"
    by (cases "read_loop s []")
       (auto simp: read_response_def split: result.splits if_splits option.splits)
  from read_loop_frame[OF r0(1)] r0(2) show ?thesis by simp
qed

lemma sock_sendall_sent:
  "sock_sendall k p = (ok, k') \<Longrightarrow> sent k' = (if ok then sent k @ [p] else sent k)"
  by (auto simp: sock_sendall_def split: if_splits list.splits bool.splits)

lemma sendall_sent:
  "sent_of (state_of (sendall s p)) =
     (case sendall s p of Returns _ _ \<Rightarrow> sent_of s @ [p] | Raises _ _ \<Rightarrow> sent_of s)"
proof (cases "socket s")
  case None
  then show ?thesis by (simp add: sendall_def sent_of_def)
next
  case (Some k)
  obtain ok k' where k': "sock_sendall k p = (ok, k')" by (cases "sock_sendall k p") auto
  from sock_sendall_sent[OF this] Some k' show ?thesis
    by (cases ok) (simp_all add: sendall_def sent_of_def)
qed

lemma sent_of_rfile [simp]: "sent_of (s\<lparr>rfile := f\<rparr>) = sent_of s"
  by (simp add: sent_of_def)

lemma command_sent:
  assumes "command s cmd ex = Some r"
  shows "(\<exists>e. sendall s (encode (cmd @ [CR, LF])) = Raises e (state_of r) \<and> r = Raises e (state_of r)
               \<and> sent_of (state_of r) = sent_of s)
         \<or> sent_of (state_of r) = sent_of s @ [encode (cmd @ [CR, LF])]"
proof (cases "sendall s (encode (cmd @ [CR, LF]))")
  case (Raises e s1)
  with assms sendall_sent[of s "encode (cmd @ [CR, LF])"] show ?thesis
    by (auto simp: command_def)
next
  case (Returns u s1)
  with sendall_sent[of s "encode (cmd @ [CR, LF])"]
  have s1: "sent_of s1 = sent_of s @ [encode (cmd @ [CR, LF])]" by simp
  from assms Returns obtain r1 where r1: "read_response s1 = Some r1" "state_of r = state_of r1"
    by (cases "read_response s1")
       (auto simp: command_def split: result.splits option.splits if_splits)
  from read_response_frame[OF r1(1)] r1(2) s1 show ?thesis by auto
qed





text \<open>Commands on a session whose control socket sends without failure.\<close>

lemma command_reply:
  assumes "socket s = Some k" "is_connected k" "send_faults k = []"
    and "rfile s = Some (reply l # rest)"
    and "terminator l" "py_int (take 3 l) = Some code" "rstrip [CR, LF] (l @ [CR, LF]) = l"
  shows "command s cmd None =
         Some (Returns (code, l)
                (s\<lparr>socket := Some (k\<lparr>sent := sent k @ [encode (cmd @ [CR, LF])]\<rparr>),
                   rfile := Some rest\<rparr>))"
proof -
  let ?s1 = "s\<lparr>socket := Some (k\<lparr>sent := sent k @ [encode (cmd @ [CR, LF])]\<rparr>)\<rparr>"
  have 1: "sendall s (encode (cmd @ [CR, LF])) = Returns () ?s1"
    using assms(1-3) by (simp add: sendall_def sock_sendall_def)
  have "read_response ?s1 = Some (Returns (code, l) (?s1\<lparr>rfile := Some rest\<rparr>))"
    using read_response_stream[of ?s1 "[]" "l @ [CR, LF]" rest] assms(4-7)
    by (simp add: reply_def)
  with 1 show ?thesis by (simp add: command_def)
qed


lemma command_eof:
  assumes "socket s = Some k" "is_connected k" "send_faults k = []" "rfile s = Some []"
  shows "command s cmd ex = None"
proof -
  let ?s1 = "s\<lparr>socket := Some (k\<lparr>sent := sent k @ [encode (cmd @ [CR, LF])]\<rparr>)\<rparr>"
  have 1: "sendall s (encode (cmd @ [CR, LF])) = Returns () ?s1"
    using assms(1-3) by (simp add: sendall_def sock_sendall_def)
  have "read_loop ?s1 [] = None" using assms(4) by (intro read_loop_eof) simp
  then have "read_response ?s1 = None" by (simp add: read_response_def)
  with 1 show ?thesis by (simp add: command_def)
qed

lemmas stub_defs = stub_client_def stub_config_def FTPConfig_init_def recorded_def sent_of_def
  encode_def encode_char_def py_str_def nat_digits.simps



section \<open>The size of a remote file\<close>

text \<open>The message of a reply holds at least one word: its code.\<close>

lemma int_digits_hd: "int_digits r = Some ds \<Longrightarrow> r \<noteq> [] \<and> isdecimal (hd r)"
  by (cases r rule: int_digits.cases) (auto split: if_splits)

lemma set_strip_class: "set (strip_class p s) \<subseteq> set s"
proof -
  have "set (strip_class p s) \<subseteq> set (dropWhile p s)"
    unfolding strip_class_def using set_dropWhileD[of _ p "rev (dropWhile p s)"] by auto
  then show ?thesis using set_dropWhileD[of _ p s] by auto
qed

lemma py_int_has_digit:
  assumes "py_int t = Some n"
  shows "\<exists>c \<in> set t. isdecimal c"
proof -
  from py_int_parts[OF assms] obtain c r ds where cr: "strip_class int_space t = c # r"
    and "int_digits r = Some ds \<or> int_digits (c # r) = Some ds" by blast
  then have "(\<exists>d \<in> set r. isdecimal d) \<or> isdecimal c"
    using int_digits_hd[of r ds] int_digits_hd[of "c # r" ds] by (cases r) auto
  then have "\<exists>d \<in> set (c # r). isdecimal d" by auto
  then show ?thesis using set_strip_class[of int_space t] unfolding cr by blast
qed

lemma set_join: "x \<in> set xs \<Longrightarrow> set x \<subseteq> set (join sep xs)"
  by (induction sep xs rule: join.induct) auto

lemma isdecimal_not_isspace: "isdecimal c \<Longrightarrow> \<not> isspace c"
  by (auto simp: isdecimal_def isspace_def)

lemma read_response_message_word:
  assumes "read_response s = Some (Returns (code, msg) s1)"
  shows "split_all msg \<noteq> []"
proof -
  from assms obtain lines s0 where l: "read_loop s [] = Some (Returns lines s0)"
    by (auto simp: read_response_def split: option.splits result.splits if_splits)
  from assms l have m: "lines \<noteq> []" "msg = join [LF] lines" "py_int (take 3 (last lines)) = Some code"
    by (auto simp: read_response_def split: option.splits if_splits)
  from py_int_has_digit[OF m(3)] obtain c where c: "c \<in> set (take 3 (last lines))" "isdecimal c"
    by blast
  from c(1) have "c \<in> set (last lines)" by (rule in_set_takeD)
  moreover have "last lines \<in> set lines" using m(1) by simp
  ultimately have "c \<in> set msg" using set_join[of "last lines" lines "[LF]"] m(2) by auto
  with c(2) have "dropWhile isspace msg \<noteq> []"
    by (auto simp: dropWhile_eq_Nil_conv dest: isdecimal_not_isspace)
  then show ?thesis by (subst split_all.simps) simp
qed

lemma command_message_word:
  assumes "command s cmd ex = Some (Returns (code, msg) s1)"
  shows "split_all msg \<noteq> []"
proof -
  from assms obtain s0 s2 where "read_response s0 = Some (Returns (code, msg) s2)"
    by (auto simp: command_def split: result.splits option.splits if_splits)
  then show ?thesis by (rule read_response_message_word)
qed

text \<open>
  C8 (amended). For every server reply to the \<open>SIZE\<close> command whose code is not 213,
  \<open>size(path)\<close> returns 0 and does not raise. When the code is 213 it returns what
  \<open>int()\<close> reads from the last word of the reply message, and raises \<open>ValueError\<close>
  when \<open>int()\<close> does not accept that word; for a reply whose last word is the size,
  written with at most 4300 decimal digits, it returns the size.
\<close>

theorem size_zero_unless_213:
  "(command s (''SIZE '' @ path) None = Some (Returns (code, msg) s1) \<and> code \<noteq> 213 \<longrightarrow>
      size_ftp s path = Some (Returns 0 s1)) \<and>
   (command s (''SIZE '' @ path) None = Some (Returns (213, msg) s1) \<longrightarrow>
      size_ftp s path =
        (case py_int (last (split_all msg)) of
           None \<Rightarrow> Some (Raises ValueError s1)
         | Some n \<Rightarrow> Some (Returns n s1))) \<and>
   (command s (''SIZE '' @ path) None = Some (Returns (213, msg) s1) \<and>
    digit_group (last (split_all msg)) \<and> length (last (split_all msg)) \<le> 4300 \<longrightarrow>
      size_ftp s path = Some (Returns (int (dec_val (last (split_all msg)))) s1))"
proof -
  have 1: "size_ftp s path = Some (Returns 0 s1)"
    if "command s (''SIZE '' @ path) None = Some (Returns (code, msg) s1) \<and> code \<noteq> 213"
    using that by (simp add: size_ftp_def)
  have 2: "size_ftp s path =
        (case py_int (last (split_all msg)) of
           None \<Rightarrow> Some (Raises ValueError s1)
         | Some n \<Rightarrow> Some (Returns n s1))"
    if a: "command s (''SIZE '' @ path) None = Some (Returns (213, msg) s1)"
  proof -
    from a have "split_all msg \<noteq> []" by (rule command_message_word)
    then obtain w ws where "split_all msg = w # ws" by (cases "split_all msg") auto
    with a show ?thesis by (simp add: size_ftp_def)
  qed
  have 3: "size_ftp s path = Some (Returns (int (dec_val (last (split_all msg)))) s1)"
    if a: "command s (''SIZE '' @ path) None = Some (Returns (213, msg) s1) \<and>
      digit_group (last (split_all msg)) \<and> length (last (split_all msg)) \<le> 4300"
  proof -
    from a have "py_int (last (split_all msg)) = Some (int (dec_val (last (split_all msg))))"
      by (intro py_int_decimal) (simp_all add: digit_group_def max_str_digits_def)
    with 2 a show ?thesis by simp
  qed
  from 1 2 3 show ?thesis by blast
qed

lemma split_all_ex: "split_all ''213 1024'' = [''213'', ''1024'']"
  by (simp add: split_all.simps isspace_def)

lemma split_all_bytes: "split_all ''213 12 bytes'' = [''213'', ''12'', ''bytes'']"
  by (simp add: split_all.simps isspace_def)

lemma split_all_code_only: "split_all ''213 '' = [''213'']"
  by (simp add: split_all.simps isspace_def)

theorem size_zero_unless_213_witness:
  "size_ftp (stub_client stub_config [reply ''550 Not a plain file''] []) ''f'' =
     Some (Returns 0 (recorded (stub_client stub_config [] []) [''SIZE f'' @ [CR, LF]])) \<and>
   size_ftp (stub_client stub_config [reply ''213 1024''] []) ''f'' =
     Some (Returns 1024 (recorded (stub_client stub_config [] []) [''SIZE f'' @ [CR, LF]])) \<and>
   size_ftp (stub_client stub_config [reply ''213 1024''] []) ''f'' =
     Some (Returns (int (dec_val ''1024''))
            (recorded (stub_client stub_config [] []) [''SIZE f'' @ [CR, LF]]))"
proof -
  let ?k = "\<lparr>peer = (host stub_config, port stub_config),
             sock_timeout = Some (timeout stub_config), is_connected = True,
             server_hostname = None, peer_certs = [], inbound = [], send_faults = [],
             sent = [], is_closed = False, io_refs = 1\<rparr>"
  let ?s1 = "recorded (stub_client stub_config [] []) [''SIZE f'' @ [CR, LF]]"
  have c1: "command (stub_client stub_config [reply ''550 Not a plain file''] [])
              (''SIZE '' @ ''f'') None = Some (Returns (550, ''550 Not a plain file'') ?s1)"
    by (subst command_reply[where k = ?k and l = "''550 Not a plain file''" and rest = "[]"
          and code = 550])
       (simp_all add: stub_defs eval_defs)
  have c2: "command (stub_client stub_config [reply ''213 1024''] []) (''SIZE '' @ ''f'') None =
      Some (Returns (213, ''213 1024'') ?s1)"
    by (subst command_reply[where k = ?k and l = "''213 1024''" and rest = "[]" and code = 213])
       (simp_all add: stub_defs eval_defs)
  have w: "py_int (last (split_all ''213 1024'')) = Some 1024"
    "digit_group (last (split_all ''213 1024''))" "length (last (split_all ''213 1024'')) \<le> 4300"
    "last (split_all ''213 1024'') = ''1024''"
    by (simp_all add: split_all_ex eval_defs digit_group_def)
  show ?thesis
    using size_zero_unless_213[of "stub_client stub_config [reply ''550 Not a plain file''] []"
        "''f''" 550 "''550 Not a plain file''" ?s1]
      size_zero_unless_213[of "stub_client stub_config [reply ''213 1024''] []" "''f''" _
        "''213 1024''" ?s1]
      c1 c2 w
    by (simp add: dec_val_def digit_val_def)
qed

text \<open>
  A reply with code 213 whose last word is not the size: \<open>size\<close> raises. And a reply
  with code 213 and nothing after it: \<open>size\<close> returns the code.
\<close>

theorem size_213_counterexample:
  "size_ftp (stub_client stub_config [reply ''213 12 bytes''] []) ''f'' =
     Some (Raises ValueError (recorded (stub_client stub_config [] []) [''SIZE f'' @ [CR, LF]])) \<and>
   size_ftp (stub_client stub_config [reply ''213 ''] []) ''f'' =
     Some (Returns 213 (recorded (stub_client stub_config [] []) [''SIZE f'' @ [CR, LF]]))"
proof -
  let ?k = "\<lparr>peer = (host stub_config, port stub_config),
             sock_timeout = Some (timeout stub_config), is_connected = True,
             server_hostname = None, peer_certs = [], inbound = [], send_faults = [],
             sent = [], is_closed = False, io_refs = 1\<rparr>"
  let ?s1 = "recorded (stub_client stub_config [] []) [''SIZE f'' @ [CR, LF]]"
  have c1: "command (stub_client stub_config [reply ''213 12 bytes''] []) (''SIZE '' @ ''f'') None =
      Some (Returns (213, ''213 12 bytes'') ?s1)"
    by (subst command_reply[where k = ?k and l = "''213 12 bytes''" and rest = "[]"
          and code = 213])
       (simp_all add: stub_defs eval_defs)
  have c2: "command (stub_client stub_config [reply ''213 ''] []) (''SIZE '' @ ''f'') None =
      Some (Returns (213, ''213 '') ?s1)"
    by (subst command_reply[where k = ?k and l = "''213 ''" and rest = "[]" and code = 213])
       (simp_all add: stub_defs eval_defs)
  have w: "py_int ''bytes'' = None" "py_int ''213'' = Some 213"
    by (simp_all add: eval_defs)
  show ?thesis
    unfolding size_ftp_def c1 c2 by (simp add: split_all_bytes split_all_code_only w)
qed

section \<open>Closing the session\<close>

lemma sendall_socket: "socket (state_of (sendall s p)) = None \<longleftrightarrow> socket s = None"
proof (cases "socket s")
  case None
  then show ?thesis by (simp add: sendall_def)
next
  case (Some k)
  then show ?thesis
    by (cases "sock_sendall k p") (auto simp: sendall_def split: bool.splits)
qed

lemma command_socket:
  assumes "command s cmd ex = Some r"
  shows "socket (state_of r) = None \<longleftrightarrow> socket s = None"
proof (cases "sendall s (encode (cmd @ [CR, LF]))")
  case (Raises e s1)
  with assms sendall_socket[of s "encode (cmd @ [CR, LF])"] show ?thesis
    by (auto simp: command_def)
next
  case (Returns u s1)
  with sendall_socket[of s "encode (cmd @ [CR, LF])"]
  have s1: "socket s1 = None \<longleftrightarrow> socket s = None" by simp
  from assms Returns obtain r1 where r1: "read_response s1 = Some r1" "state_of r = state_of r1"
    by (cases "read_response s1")
       (auto simp: command_def split: result.splits option.splits if_splits)
  from read_response_frame[OF r1(1)] r1(2) obtain f where "state_of r = s1\<lparr>rfile := f\<rparr>" by auto
  with s1 show ?thesis by simp
qed

lemma close_socket_closed:
  "socket s \<noteq> None \<Longrightarrow> \<exists>k. socket (close_socket s) = Some k \<and> is_closed k"
  by (cases "socket s") (simp_all add: close_socket_def sock_close_def)

lemma sent_of_close_socket [simp]: "sent_of (close_socket s) = sent_of s"
  by (cases "socket s") (simp_all add: close_socket_def sock_close_def sent_of_def)

lemma close_result:
  "command s ''QUIT'' None = Some r \<Longrightarrow> close s = Some (Returns () (close_socket (state_of r)))"
  by (cases r) (simp_all add: close_def)

text \<open>
  What holds of \<open>close()\<close>: it never raises, and when the \<open>QUIT\<close> exchange
  ends, by returning or by raising, it returns after calling \<open>close()\<close> on the
  control socket, having sent nothing but the \<open>QUIT\<close> command.
\<close>

lemma close_drops_QUIT_failure:
  "(\<forall>e s'. close s \<noteq> Some (Raises e s')) \<and>
   (command s ''QUIT'' None = Some r \<longrightarrow>
      close s = Some (Returns () (close_socket (state_of r))) \<and>
      (socket s \<noteq> None \<longrightarrow> (\<exists>k. socket (close_socket (state_of r)) = Some k \<and> is_closed k)) \<and>
      (sent_of (close_socket (state_of r)) = sent_of s \<or>
       sent_of (close_socket (state_of r)) = sent_of s @ [encode (''QUIT'' @ [CR, LF])]))"
proof (intro conjI impI allI)
  fix e s'
  show "close s \<noteq> Some (Raises e s')"
    by (auto simp: close_def split: option.splits result.splits)
next
  assume "command s ''QUIT'' None = Some r"
  then show "close s = Some (Returns () (close_socket (state_of r)))" by (rule close_result)
next
  assume "command s ''QUIT'' None = Some r" "socket s \<noteq> None"
  then have "socket (state_of r) \<noteq> None"
    using command_socket[of s "''QUIT''" None r] by simp
  then show "\<exists>k. socket (close_socket (state_of r)) = Some k \<and> is_closed k"
    by (rule close_socket_closed)
next
  assume "command s ''QUIT'' None = Some r"
  from command_sent[OF this]
  show "sent_of (close_socket (state_of r)) = sent_of s \<or>
        sent_of (close_socket (state_of r)) = sent_of s @ [encode (''QUIT'' @ [CR, LF])]"
    by auto
qed

text \<open>
  When the server closes the control connection without a reply to \<open>QUIT\<close>, the
  loop of \<open>_read_response\<close> reads empty lines forever and \<open>close()\<close> does not
  return.
\<close>

lemma close_hangs_at_eof:
  assumes "socket s = Some k" "is_connected k" "send_faults k = []" "rfile s = Some []"
  shows "close s = None"
  using command_eof[OF assms] by (simp add: close_def)

section \<open>The passive reply\<close>

text \<open>
  The search of \<open>_pasv\<close> finds exactly the first parenthesized group of six
  comma-separated integers, and fails exactly when there is none.
\<close>

lemma match_digits_sound:
  "match_digits s = Some (d, r) \<Longrightarrow> digit_group d \<and> s = d @ r \<and> (r = [] \<or> \<not> isdecimal (hd r))"
  using hd_dropWhile[of isdecimal s]
  by (auto simp: match_digits_def digit_group_def list_all_iff split: if_splits dest: set_takeWhileD)

lemma match_digits_complete:
  assumes "digit_group d" "r = [] \<or> \<not> isdecimal (hd r)"
  shows "match_digits (d @ r) = Some (d, r)"
proof -
  from assms(1) have all: "\<forall>c \<in> set d. isdecimal c" by (simp add: digit_group_def list_all_iff)
  have t: "takeWhile isdecimal (d @ r) = d"
  proof (cases r)
    case Nil
    with all show ?thesis by simp
  next
    case (Cons c r')
    with assms(2) have "\<not> isdecimal c" by simp
    with all Cons show ?thesis by (simp add: takeWhile_append2)
  qed
  have "dropWhile isdecimal (d @ r) = r"
  proof (cases r)
    case Nil
    with all show ?thesis by simp
  next
    case (Cons c r')
    with assms(2) have "\<not> isdecimal c" by simp
    with all Cons show ?thesis by (simp add: dropWhile_append2)
  qed
  with t assms(1) show ?thesis by (simp add: match_digits_def digit_group_def)
qed

lemma digit_groups_sound:
  "digit_groups n s = Some (ds, r) \<Longrightarrow>
   length ds = Suc n \<and> list_all digit_group ds \<and> s = join '','' ds @ r \<and> ds \<noteq> []"
proof (induction n arbitrary: s ds r)
  case 0
  then obtain d where "match_digits s = Some (d, r)" "ds = [d]"
    by (auto split: option.splits)
  with match_digits_sound[of s d r] show ?case by simp
next
  case (Suc n)
  from Suc.prems obtain d r0 r' ds' where
    m: "match_digits s = Some (d, r0)" and r0: "r0 = CHR '','' # r'"
    and g: "digit_groups n r' = Some (ds', r)" and ds: "ds = d # ds'"
    by (auto split: option.splits list.splits if_splits)
  from Suc.IH[OF g] obtain x xs where xs: "ds' = x # xs" by (cases ds') auto
  from Suc.IH[OF g] match_digits_sound[OF m] r0 ds xs show ?case by simp
qed

lemma digit_group_hd: "digit_group d \<Longrightarrow> isdecimal (hd d)"
  by (cases d) (auto simp: digit_group_def)

lemma digit_groups_complete:
  "length ds = Suc n \<Longrightarrow> list_all digit_group ds \<Longrightarrow> r = [] \<or> \<not> isdecimal (hd r) \<Longrightarrow>
   digit_groups n (join '','' ds @ r) = Some (ds, r)"
proof (induction n arbitrary: ds)
  case 0
  then obtain d where "ds = [d]" by (cases ds) auto
  with 0 match_digits_complete[of d r] show ?case by simp
next
  case (Suc n)
  then obtain d x xs where ds: "ds = d # x # xs" by (cases ds; cases "tl ds") auto
  with Suc.prems have d: "digit_group d" and rest: "length (x # xs) = Suc n" "list_all digit_group (x # xs)"
    by simp_all
  have "\<not> isdecimal (CHR '','')" by (simp add: isdecimal_def)
  then have "match_digits (d @ (CHR '','' # join '','' (x # xs) @ r)) = Some (d, CHR '','' # join '','' (x # xs) @ r)"
    using d by (intro match_digits_complete) simp_all
  moreover have "digit_groups n (join '','' (x # xs) @ r) = Some (x # xs, r)"
    using rest Suc.prems(3) by (intro Suc.IH)
  ultimately show ?case using ds by simp
qed

lemma match_pasv_sound:
  assumes "match_pasv s = Some ds"
  shows "length ds = 6 \<and> list_all digit_group ds \<and> (\<exists>post. s = ''('' @ join '','' ds @ '')'' @ post)"
proof -
  from assms obtain r r' post where s: "s = CHR ''('' # r"
    and g: "digit_groups 5 r = Some (ds, r')" and r': "r' = CHR '')'' # post"
    by (auto simp: match_pasv_def split: list.splits if_splits option.splits)
  from digit_groups_sound[OF g] s r' show ?thesis by auto
qed

lemma match_pasv_complete:
  assumes "length ds = 6" "list_all digit_group ds"
  shows "match_pasv (''('' @ join '','' ds @ '')'' @ post) = Some ds"
proof -
  have "\<not> isdecimal (CHR '')'')" by (simp add: isdecimal_def)
  then have "digit_groups 5 (join '','' ds @ (CHR '')'' # post)) = Some (ds, CHR '')'' # post)"
    using assms by (intro digit_groups_complete) simp_all
  then show ?thesis by (simp add: match_pasv_def)
qed

lemma six_group_at_match:
  "six_group_at msg i ds \<longleftrightarrow> i \<le> length msg \<and> match_pasv (drop i msg) = Some ds"
  using match_pasv_sound[of "drop i msg" ds] match_pasv_complete[of ds]
  by (auto simp: six_group_at_def)

lemma search_pasv_None:
  "search_pasv s = None \<longleftrightarrow> (\<forall>i \<le> length s. match_pasv (drop i s) = None)"
proof (induction s)
  case Nil
  then show ?case by simp
next
  case (Cons c cs)
  show ?case
  proof
    assume a: "search_pasv (c # cs) = None"
    then have 0: "match_pasv (c # cs) = None" and "search_pasv cs = None"
      by (auto split: option.splits)
    with Cons have r: "\<forall>i \<le> length cs. match_pasv (drop i cs) = None" by simp
    show "\<forall>i \<le> length (c # cs). match_pasv (drop i (c # cs)) = None"
    proof (intro allI impI)
      fix i assume "i \<le> length (c # cs)"
      then show "match_pasv (drop i (c # cs)) = None" using 0 r by (cases i) auto
    qed
  next
    assume a: "\<forall>i \<le> length (c # cs). match_pasv (drop i (c # cs)) = None"
    then have 0: "match_pasv (c # cs) = None" by (metis drop0 le0)
    have "\<forall>i \<le> length cs. match_pasv (drop i cs) = None"
    proof (intro allI impI)
      fix i assume "i \<le> length cs"
      with a have "match_pasv (drop (Suc i) (c # cs)) = None" by (metis Suc_le_mono length_Cons)
      then show "match_pasv (drop i cs) = None" by simp
    qed
    with Cons 0 show "search_pasv (c # cs) = None" by simp
  qed
qed

lemma search_pasv_Some:
  "search_pasv s = Some ds \<longleftrightarrow>
   (\<exists>i \<le> length s. match_pasv (drop i s) = Some ds \<and> (\<forall>j < i. match_pasv (drop j s) = None))"
proof (induction s)
  case Nil
  then show ?case by simp
next
  case (Cons c cs)
  show ?case
  proof (cases "match_pasv (c # cs)")
    case (Some ds0)
    show ?thesis
    proof
      assume "search_pasv (c # cs) = Some ds"
      with Some have "ds0 = ds" by simp
      with Some show "\<exists>i \<le> length (c # cs). match_pasv (drop i (c # cs)) = Some ds \<and>
                        (\<forall>j < i. match_pasv (drop j (c # cs)) = None)"
        by (intro exI[of _ 0]) simp
    next
      assume "\<exists>i \<le> length (c # cs). match_pasv (drop i (c # cs)) = Some ds \<and>
                (\<forall>j < i. match_pasv (drop j (c # cs)) = None)"
      then obtain i where i: "match_pasv (drop i (c # cs)) = Some ds"
        "\<forall>j < i. match_pasv (drop j (c # cs)) = None" by blast
      have "i = 0"
      proof (rule ccontr)
        assume "i \<noteq> 0"
        with i(2) have "match_pasv (drop 0 (c # cs)) = None" by blast
        with Some show False by simp
      qed
      with i(1) Some show "search_pasv (c # cs) = Some ds" by simp
    qed
  next
    case None
    then have s: "search_pasv (c # cs) = search_pasv cs" by simp
    show ?thesis
    proof
      assume "search_pasv (c # cs) = Some ds"
      with s Cons obtain i where i: "i \<le> length cs" "match_pasv (drop i cs) = Some ds"
        "\<forall>j < i. match_pasv (drop j cs) = None" by auto
      have "\<forall>j < Suc i. match_pasv (drop j (c # cs)) = None"
      proof (intro allI impI)
        fix j assume "j < Suc i"
        then show "match_pasv (drop j (c # cs)) = None" using None i(3) by (cases j) auto
      qed
      with i(1,2) show "\<exists>i \<le> length (c # cs). match_pasv (drop i (c # cs)) = Some ds \<and>
                        (\<forall>j < i. match_pasv (drop j (c # cs)) = None)"
        by (intro exI[of _ "Suc i"]) simp
    next
      assume "\<exists>i \<le> length (c # cs). match_pasv (drop i (c # cs)) = Some ds \<and>
                (\<forall>j < i. match_pasv (drop j (c # cs)) = None)"
      then obtain i where i: "i \<le> length (c # cs)" "match_pasv (drop i (c # cs)) = Some ds"
        "\<forall>j < i. match_pasv (drop j (c # cs)) = None" by blast
      from i(2) None obtain k where k: "i = Suc k" by (cases i) auto
      have "\<forall>j < k. match_pasv (drop j cs) = None"
      proof (intro allI impI)
        fix j assume "j < k"
        with i(3) k have "match_pasv (drop (Suc j) (c # cs)) = None" by blast
        then show "match_pasv (drop j cs) = None" by simp
      qed
      with i(1,2) k have "\<exists>i \<le> length cs. match_pasv (drop i cs) = Some ds \<and>
          (\<forall>j < i. match_pasv (drop j cs) = None)"
        by (intro exI[of _ k]) simp
      with Cons s show "search_pasv (c # cs) = Some ds" by simp
    qed
  qed
qed

lemma search_pasv_None_iff: "search_pasv msg = None \<longleftrightarrow> \<not> has_six_group msg"
  unfolding search_pasv_None has_six_group_def six_group_at_match by auto

lemma search_pasv_first: "search_pasv msg = Some ds \<longleftrightarrow> first_six_group msg ds"
proof
  assume "search_pasv msg = Some ds"
  then obtain i where i: "i \<le> length msg" "match_pasv (drop i msg) = Some ds"
    "\<forall>j < i. match_pasv (drop j msg) = None"
    unfolding search_pasv_Some by blast
  then show "first_six_group msg ds"
    unfolding first_six_group_def six_group_at_match by (intro exI[of _ i]) auto
next
  assume "first_six_group msg ds"
  then obtain i where i: "i \<le> length msg" "match_pasv (drop i msg) = Some ds"
    "\<forall>j < i. \<forall>ds'. \<not> (j \<le> length msg \<and> match_pasv (drop j msg) = Some ds')"
    unfolding first_six_group_def six_group_at_match by blast
  have "\<forall>j < i. match_pasv (drop j msg) = None"
  proof (intro allI impI)
    fix j assume "j < i"
    with i(1,3) show "match_pasv (drop j msg) = None"
      by (cases "match_pasv (drop j msg)") auto
  qed
  with i(1,2) show "search_pasv msg = Some ds" unfolding search_pasv_Some by blast
qed

lemma those_py_int:
  "list_all digit_group ds \<Longrightarrow> \<forall>d \<in> set ds. length d \<le> max_str_digits \<Longrightarrow>
   those (map py_int ds) = Some (map (\<lambda>d. int (dec_val d)) ds)"
proof (induction ds)
  case Nil
  then show ?case by simp
next
  case (Cons d ds)
  then have "py_int d = Some (int (dec_val d))"
    by (intro py_int_decimal) (simp_all add: digit_group_def)
  with Cons show ?case by simp
qed

lemma those_py_int_too_long:
  "list_all digit_group ds \<Longrightarrow> \<exists>d \<in> set ds. max_str_digits < length d \<Longrightarrow>
   those (map py_int ds) = None"
proof (induction ds)
  case Nil
  then show ?case by simp
next
  case (Cons d ds)
  show ?case
  proof (cases "max_str_digits < length d")
    case True
    with Cons.prems have "py_int d = None"
      by (intro py_int_too_long) (simp_all add: digit_group_def)
    then show ?thesis by simp
  next
    case False
    with Cons have "those (map py_int ds) = None" by auto
    then show ?thesis by (simp split: option.split)
  qed
qed

lemma digit_groups_str_fit:
  assumes "list_all digit_group ds" "\<forall>d \<in> set ds. length d \<le> max_str_digits"
  shows "list_all str_fits (map (\<lambda>d. int (dec_val d)) ds)"
  using assms dec_val_str_fits
  by (auto simp: list_all_iff digit_group_def)

lemma pasv_result:
  assumes "command s ''PASV'' None = Some (Returns (code, msg) s1)"
  shows "pasv s =
         (if code \<noteq> 227 then Some (Raises (FTPError (''PASV failed: '' @ msg)) s1)
          else case search_pasv msg of
                 None \<Rightarrow> Some (Raises (FTPError ''Invalid PASV response'') s1)
               | Some ds \<Rightarrow>
                   if \<forall>d \<in> set ds. length d \<le> max_str_digits
                   then Some (Returns (pasv_address ds, pasv_port ds) s1)
                   else Some (Raises ValueError s1))"
proof (cases "search_pasv msg")
  case None
  with assms show ?thesis by (simp add: pasv_def)
next
  case (Some ds)
  then obtain i where "match_pasv (drop i msg) = Some ds" unfolding search_pasv_Some by blast
  from match_pasv_sound[OF this] have l: "length ds = 6" "list_all digit_group ds" by auto
  show ?thesis
  proof (cases "\<forall>d \<in> set ds. length d \<le> max_str_digits")
    case True
    from l(1) have tk: "take 4 (map (\<lambda>d. int (dec_val d)) ds) = map (\<lambda>d. int (dec_val d)) (take 4 ds)"
      by (simp add: take_map)
    have "list_all str_fits (map (\<lambda>d. int (dec_val d)) (take 4 ds))"
      using l(2) True
      by (intro digit_groups_str_fit) (auto simp: list_all_iff dest: in_set_takeD)
    with assms Some l tk True those_py_int[OF l(2) True] show ?thesis
      by (simp add: pasv_def pasv_address_def pasv_port_def comp_def)
  next
    case False
    then have "\<exists>d \<in> set ds. max_str_digits < length d" by (auto simp: not_le)
    from those_py_int_too_long[OF l(2) this] have n: "those (map py_int ds) = None" .
    from n assms Some False show ?thesis by (auto simp: pasv_def)
  qed
qed

lemma search_example:
  "search_pasv ''227 Entering Passive Mode (192,168,1,5,200,10).'' =
     Some [''192'', ''168'', ''1'', ''5'', ''200'', ''10'']"
  by (simp add: match_pasv_def match_digits_def isdecimal_def eval_nat_numeral)

lemma address_example:
  "pasv_address [''192'', ''168'', ''1'', ''5'', ''200'', ''10''] = ''192.168.1.5''"
  "pasv_port [''192'', ''168'', ''1'', ''5'', ''200'', ''10''] = 51210"
  by (simp_all add: pasv_address_def pasv_port_def dec_val_def digit_val_def py_str_def
      nat_digits.simps)

text \<open>
  C4 (amended). The passive handshake fails with the error of the data connection
  (\<open>FTPError\<close> in the code) whenever the \<open>PASV\<close> reply code is not 227 or the
  message contains no parenthesized group of six comma-separated integers; otherwise,
  when none of the six integers of the first such group is written with more than 4300
  digits, it returns the address formed by joining the first four integers with dots, and
  the port equal to the fifth integer times 256 plus the sixth. For the message
  \<open>227 Entering Passive Mode (192,168,1,5,200,10).\<close> it yields the address
  192.168.1.5 and the port 51210.
\<close>

theorem passive_handshake:
  "command s ''PASV'' None = Some (Returns (code, msg) s1) \<longrightarrow>
     (code \<noteq> 227 \<or> \<not> has_six_group msg \<longrightarrow> (\<exists>m. pasv s = Some (Raises (FTPError m) s1))) \<and>
     (code = 227 \<and> has_six_group msg \<longrightarrow> (\<exists>ds. first_six_group msg ds)) \<and>
     (code = 227 \<and> first_six_group msg ds \<and> (\<forall>d \<in> set ds. length d \<le> 4300) \<longrightarrow>
        pasv s = Some (Returns (pasv_address ds, pasv_port ds) s1)) \<and>
     (code = 227 \<and> msg = ''227 Entering Passive Mode (192,168,1,5,200,10).'' \<longrightarrow>
        pasv s = Some (Returns (''192.168.1.5'', 51210) s1))"
proof (intro impI conjI)
  assume c: "command s ''PASV'' None = Some (Returns (code, msg) s1)"
  note r = pasv_result[OF c]
  {
    assume "code \<noteq> 227 \<or> \<not> has_six_group msg"
    then show "\<exists>m. pasv s = Some (Raises (FTPError m) s1)"
      using r search_pasv_None_iff[of msg] by (cases "code = 227") auto
  next
    assume "code = 227 \<and> has_six_group msg"
    then have "search_pasv msg \<noteq> None" using search_pasv_None_iff by blast
    then show "\<exists>ds. first_six_group msg ds" using search_pasv_first by auto
  next
    assume "code = 227 \<and> first_six_group msg ds \<and> (\<forall>d \<in> set ds. length d \<le> 4300)"
    then show "pasv s = Some (Returns (pasv_address ds, pasv_port ds) s1)"
      using r search_pasv_first[of msg ds] by (simp add: max_str_digits_def)
  next
    assume "code = 227 \<and> msg = ''227 Entering Passive Mode (192,168,1,5,200,10).''"
    then show "pasv s = Some (Returns (''192.168.1.5'', 51210) s1)"
      using r search_example address_example by (simp add: max_str_digits_def)
  }
qed

theorem passive_handshake_witness:
  "pasv (stub_client stub_config [reply ''227 Entering Passive Mode (192,168,1,5,200,10).''] []) =
     Some (Returns (''192.168.1.5'', 51210)
            (recorded (stub_client stub_config [] []) [''PASV'' @ [CR, LF]])) \<and>
   (\<exists>ds. first_six_group ''227 Entering Passive Mode (192,168,1,5,200,10).'' ds) \<and>
   pasv (stub_client stub_config [reply ''227 Entering Passive Mode (192,168,1,5,200,10).''] []) =
     Some (Returns (pasv_address [''192'', ''168'', ''1'', ''5'', ''200'', ''10''],
                    pasv_port [''192'', ''168'', ''1'', ''5'', ''200'', ''10''])
            (recorded (stub_client stub_config [] []) [''PASV'' @ [CR, LF]])) \<and>
   (\<exists>m. pasv (stub_client stub_config [reply ''500 Unknown command''] []) =
     Some (Raises (FTPError m) (recorded (stub_client stub_config [] []) [''PASV'' @ [CR, LF]])))"
proof -
  let ?k = "\<lparr>peer = (host stub_config, port stub_config), sock_timeout = Some (timeout stub_config),
             is_connected = True, server_hostname = None, peer_certs = [],
             inbound = [], send_faults = [], sent = [], is_closed = False, io_refs = 1\<rparr>"
  let ?msg = "''227 Entering Passive Mode (192,168,1,5,200,10).''"
  let ?ds = "[''192'', ''168'', ''1'', ''5'', ''200'', ''10'']"
  have c1: "command (stub_client stub_config [reply ?msg] []) ''PASV'' None =
      Some (Returns (227, ?msg) (recorded (stub_client stub_config [] []) [''PASV'' @ [CR, LF]]))"
    by (subst command_reply[where k = ?k and l = ?msg and rest = "[]" and code = 227])
       (simp_all add: stub_defs eval_defs)
  have c2: "command (stub_client stub_config [reply ''500 Unknown command''] []) ''PASV'' None =
      Some (Returns (500, ''500 Unknown command'')
             (recorded (stub_client stub_config [] []) [''PASV'' @ [CR, LF]]))"
    by (subst command_reply[where k = ?k and l = "''500 Unknown command''" and rest = "[]"
          and code = 500])
       (simp_all add: stub_defs eval_defs)
  have f: "first_six_group ?msg ?ds" using search_example search_pasv_first by blast
  then have h: "has_six_group ?msg"
    by (auto simp: first_six_group_def has_six_group_def)
  show ?thesis
    using passive_handshake[of "stub_client stub_config [reply ?msg] []" 227 ?msg
        "recorded (stub_client stub_config [] []) [''PASV'' @ [CR, LF]]" ?ds]
      passive_handshake[of "stub_client stub_config [reply ''500 Unknown command''] []" 500
        "''500 Unknown command''"
        "recorded (stub_client stub_config [] []) [''PASV'' @ [CR, LF]]"]
      c1 c2 f h
    by (simp add: address_example)
qed

text \<open>
  A reply with code 227 whose first integer has 4301 digits holds a parenthesized group of
  six comma-separated integers, and yet the handshake returns no address: \<open>int()\<close>
  refuses the integer, and the error is not the error of the data connection.
\<close>

lemma rstrip_crlf:
  assumes "l \<noteq> []" "last l \<noteq> CR" "last l \<noteq> LF"
  shows "rstrip [CR, LF] (l @ [CR, LF]) = l"
proof -
  from assms(1) obtain b x where "l = b @ [x]" by (cases l rule: rev_cases) auto
  with assms(2,3) show ?thesis by (simp add: rstrip_def)
qed

lemma search_pasv_skip: "c \<noteq> CHR ''('' \<Longrightarrow> search_pasv (c # cs) = search_pasv cs"
  by (simp add: match_pasv_def)

lemma search_pasv_hit: "match_pasv s = Some ds \<Longrightarrow> search_pasv s = Some ds"
  by (cases s) simp_all

lemma search_long_integer:
  "search_pasv (''227 ('' @ replicate 4301 (CHR ''9'') @ '',1,1,1,5,6)'') =
     Some [replicate 4301 (CHR ''9''), ''1'', ''1'', ''1'', ''5'', ''6'']"
proof -
  let ?ds = "[replicate 4301 (CHR ''9''), ''1'', ''1'', ''1'', ''5'', ''6'']"
  have "list_all digit_group ?ds"
    by (simp add: digit_group_def isdecimal_def list_all_iff)
  then have "match_pasv (''('' @ join '','' ?ds @ '')'' @ []) = Some ?ds"
    by (intro match_pasv_complete) simp_all
  then have "search_pasv (''('' @ join '','' ?ds @ '')'' @ []) = Some ?ds"
    by (rule search_pasv_hit)
  then show ?thesis by (simp add: search_pasv_skip del: search_pasv.simps)
qed

theorem passive_handshake_long_integer_counterexample:
  "has_six_group (''227 ('' @ replicate 4301 (CHR ''9'') @ '',1,1,1,5,6)'') \<and>
   pasv (stub_client stub_config
           [reply (''227 ('' @ replicate 4301 (CHR ''9'') @ '',1,1,1,5,6)'')] []) =
     Some (Raises ValueError (recorded (stub_client stub_config [] []) [''PASV'' @ [CR, LF]]))"
proof -
  let ?msg = "''227 ('' @ replicate 4301 (CHR ''9'') @ '',1,1,1,5,6)''"
  let ?k = "\<lparr>peer = (host stub_config, port stub_config), sock_timeout = Some (timeout stub_config),
             is_connected = True, server_hostname = None, peer_certs = [],
             inbound = [], send_faults = [], sent = [], is_closed = False, io_refs = 1\<rparr>"
  have h: "has_six_group ?msg"
    using search_long_integer search_pasv_None_iff[of ?msg] by simp
  have c: "command (stub_client stub_config [reply ?msg] []) ''PASV'' None =
      Some (Returns (227, ?msg) (recorded (stub_client stub_config [] []) [''PASV'' @ [CR, LF]]))"
  proof (subst command_reply[where k = ?k and l = ?msg and rest = "[]" and code = 227])
    show "rstrip [CR, LF] (?msg @ [CR, LF]) = ?msg" by (rule rstrip_crlf) simp_all
    show "py_int (take 3 ?msg) = Some 227" by (simp add: eval_defs)
    show "terminator ?msg" by (simp add: terminator_def)
  qed (simp_all add: stub_defs)
  have "\<not> (\<forall>d \<in> set [replicate 4301 (CHR ''9''), ''1'', ''1'', ''1'', ''5'', ''6''].
            length d \<le> max_str_digits)"
    by (simp add: max_str_digits_def)
  with pasv_result[OF c] search_long_integer h show ?thesis by simp
qed

section \<open>The data connection\<close>





lemma pasv_reply:
  assumes "socket s = Some k" "is_connected k" "send_faults k = []"
    and "rfile s = Some (reply l # rest)"
    and "terminator l" "py_int (take 3 l) = Some 227" "rstrip [CR, LF] (l @ [CR, LF]) = l"
    and "search_pasv l = Some ds" "\<forall>d \<in> set ds. length d \<le> max_str_digits"
  shows "pasv s =
         Some (Returns (pasv_address ds, pasv_port ds)
                (s\<lparr>socket := Some (k\<lparr>sent := sent k @ [encode (''PASV'' @ [CR, LF])]\<rparr>),
                   rfile := Some rest\<rparr>))"
  using pasv_result[OF command_reply[OF assms(1-7)]] assms(8,9) by simp

lemma search_example2:
  "search_pasv ''227 Entering Passive Mode (10,0,0,7,200,10).'' =
     Some [''10'', ''0'', ''0'', ''7'', ''200'', ''10'']"
  by (simp add: match_pasv_def match_digits_def isdecimal_def eval_nat_numeral)

lemma address_example2:
  "pasv_address [''10'', ''0'', ''0'', ''7'', ''200'', ''10''] = ''10.0.0.7''"
  "pasv_port [''10'', ''0'', ''0'', ''7'', ''200'', ''10''] = 51210"
  by (simp_all add: pasv_address_def pasv_port_def dec_val_def digit_val_def py_str_def
      nat_digits.simps)

lemma pasv_example2:
  "pasv (stub_client cfg (reply ''227 Entering Passive Mode (10,0,0,7,200,10).'' # rest) world) =
     Some (Returns (''10.0.0.7'', 51210)
            (recorded (stub_client cfg rest world) [''PASV'' @ [CR, LF]]))"
  by (subst pasv_reply[OF _ _ _ _ _ _ _ search_example2,
        where k = "\<lparr>peer = (host cfg, port cfg), sock_timeout = Some (timeout cfg),
          is_connected = True,
          server_hostname = None, peer_certs = [], inbound = [], send_faults = [], sent = [],
          is_closed = False, io_refs = 1\<rparr>"
        and rest = rest])
     (simp_all add: stub_defs eval_defs address_example2)


section \<open>Data operations that fail while streaming\<close>

lemma data_connection_example:
  "\<not> secure cfg \<Longrightarrow>
   data_connection (stub_client cfg
       (reply ''227 Entering Passive Mode (10,0,0,7,200,10).'' # rest)
       (\<lparr>accepts = True, cert_names = [], delivers = evs, faults = fl\<rparr> # world)) =
     Some (Returns 0
       ((recorded (stub_client cfg rest world) [''PASV'' @ [CR, LF]])
          \<lparr>data_socks :=
             [\<lparr>peer = (''10.0.0.7'', 51210), sock_timeout = Some (timeout cfg),
               is_connected = True, server_hostname = None, peer_certs = [],
               inbound = evs, send_faults = fl, sent = [],
               is_closed = False, io_refs = 0\<rparr>]\<rparr>))"
  unfolding data_connection_def pasv_example2
  by (simp add: open_socket_def stub_client_def recorded_def)

lemma recv_all_example:
  "recv_all \<lparr>peer = a, sock_timeout = t, is_connected = True, server_hostname = None,
             peer_certs = [], inbound = [Data ''drwxr-xr-x'', Fault], send_faults = [],
             sent = [], is_closed = False, io_refs = 0\<rparr> [] =
   (False, ''drwxr-xr-x'',
    \<lparr>peer = a, sock_timeout = t, is_connected = True, server_hostname = None,
      peer_certs = [], inbound = [], send_faults = [], sent = [],
      is_closed = False, io_refs = 0\<rparr>)"
  by (simp add: recv_all.simps sock_recv_def)

lemma download_loop_example:
  "download_loop \<lparr>peer = a, sock_timeout = t, is_connected = True, server_hostname = None,
             peer_certs = [], inbound = [Data ''drwxr-xr-x'', Fault], send_faults = [],
             sent = [], is_closed = False, io_refs = 0\<rparr> [] 0 =
   (False, ''drwxr-xr-x'', 10,
    \<lparr>peer = a, sock_timeout = t, is_connected = True, server_hostname = None,
      peer_certs = [], inbound = [], send_faults = [], sent = [],
      is_closed = False, io_refs = 0\<rparr>)"
  by (simp add: download_loop.simps sock_recv_def)

text \<open>
  C2 (the code at a failing input). The claim is that the data connection opened for a
  data operation is closed on every exit path of the operation. Here the peer delivers
  ten bytes and the next \<open>recv\<close> fails: \<open>list\<close> and \<open>download\<close> raise, and
  the data socket they opened is still connected and has not been closed
  (\<open>data_sock.close()\<close> is reached only when the loop ends normally).
\<close>

theorem data_socket_left_open:
  "list decode (stub_client stub_config
       [reply ''227 Entering Passive Mode (10,0,0,7,200,10).'', reply ''150 Here comes the listing'']
       [data_server [] [Data ''drwxr-xr-x'', Fault]]) [] =
     Some (Raises OSError
       ((recorded (stub_client stub_config [] []) [''PASV'' @ [CR, LF], ''LIST'' @ [CR, LF]])
          \<lparr>data_socks :=
             [\<lparr>peer = (''10.0.0.7'', 51210), sock_timeout = Some 30, is_connected = True,
               server_hostname = None, peer_certs = [], inbound = [], send_faults = [],
               sent = [], is_closed = False, io_refs = 0\<rparr>]\<rparr>)) \<and>
   download (stub_client stub_config
       [reply ''227 Entering Passive Mode (10,0,0,7,200,10).'', reply ''200 Type set to I'',
        reply ''150 Opening data connection'']
       [data_server [] [Data ''drwxr-xr-x'', Fault]]) ''f'' ''g'' =
     Some (Raises OSError
       ((recorded (stub_client stub_config [] [])
           [''PASV'' @ [CR, LF], ''TYPE I'' @ [CR, LF], ''RETR f'' @ [CR, LF]])
          \<lparr>data_socks :=
             [\<lparr>peer = (''10.0.0.7'', 51210), sock_timeout = Some 30, is_connected = True,
               server_hostname = None, peer_certs = [], inbound = [], send_faults = [],
               sent = [], is_closed = False, io_refs = 0\<rparr>],
           fs := [''g'' \<mapsto> ''drwxr-xr-x'']\<rparr>))"
proof -
  let ?p = "reply ''227 Entering Passive Mode (10,0,0,7,200,10).''"
  let ?k = "\<lambda>evs fl. \<lparr>peer = (''10.0.0.7'', 51210 :: int), sock_timeout = Some (30 :: real),
               is_connected = True, server_hostname = None, peer_certs = [],
               inbound = evs, send_faults = fl, sent = [], is_closed = False, io_refs = 0\<rparr>"
  have ns: "\<not> secure stub_config" "timeout stub_config = 30"
    by (simp_all add: stub_config_def FTPConfig_init_def)
  have enc: "encode (''LIST'' @ [CR, LF]) = ''LIST'' @ [CR, LF]"
    "encode (''TYPE I'' @ [CR, LF]) = ''TYPE I'' @ [CR, LF]"
    "encode (''RETR f'' @ [CR, LF]) = ''RETR f'' @ [CR, LF]"
    by (simp_all add: encode_def encode_char_def)
  let ?c = "\<lambda>ps. \<lparr>peer = (host stub_config, port stub_config),
               sock_timeout = Some (timeout stub_config), is_connected = True,
               server_hostname = None, peer_certs = [], inbound = [], send_faults = [],
               sent = ps, is_closed = False, io_refs = 1\<rparr>"
  let ?evs = "[Data ''drwxr-xr-x'', Fault]"
  have c1: "command ((recorded (stub_client stub_config [reply ''150 Here comes the listing''] [])
                [''PASV'' @ [CR, LF]])\<lparr>data_socks := [?k ?evs []]\<rparr>) ''LIST'' None =
      Some (Returns (150, ''150 Here comes the listing'')
        ((recorded (stub_client stub_config [] []) [''PASV'' @ [CR, LF], ''LIST'' @ [CR, LF]])
           \<lparr>data_socks := [?k ?evs []]\<rparr>))"
    by (subst command_reply[where k = "?c [''PASV'' @ [CR, LF]]"
          and l = "''150 Here comes the listing''" and rest = "[]" and code = 150])
       (simp_all add: stub_defs eval_defs)
  have l: "list decode (stub_client stub_config [?p, reply ''150 Here comes the listing'']
       [data_server [] ?evs]) [] =
     Some (Raises OSError
       ((recorded (stub_client stub_config [] []) [''PASV'' @ [CR, LF], ''LIST'' @ [CR, LF]])
          \<lparr>data_socks := [?k [] []]\<rparr>))"
    unfolding list_def data_server_def data_connection_example[OF ns(1)]
    by (simp add: ns c1[simplified] recv_all_example)
  have c2: "command ((recorded (stub_client stub_config
                [reply ''200 Type set to I'', reply ''150 Opening data connection''] [])
                [''PASV'' @ [CR, LF]])\<lparr>data_socks := [?k ?evs []]\<rparr>) ''TYPE I'' None =
      Some (Returns (200, ''200 Type set to I'')
        ((recorded (stub_client stub_config [reply ''150 Opening data connection''] [])
            [''PASV'' @ [CR, LF], ''TYPE I'' @ [CR, LF]])
           \<lparr>data_socks := [?k ?evs []]\<rparr>))"
    by (subst command_reply[where k = "?c [''PASV'' @ [CR, LF]]"
          and l = "''200 Type set to I''" and rest = "[reply ''150 Opening data connection'']"
          and code = 200])
       (simp_all add: stub_defs eval_defs)
  have c3: "command ((recorded (stub_client stub_config [reply ''150 Opening data connection''] [])
            [''PASV'' @ [CR, LF], ''TYPE I'' @ [CR, LF]])
           \<lparr>data_socks := [?k ?evs []]\<rparr>) (''RETR '' @ ''f'') None =
      Some (Returns (150, ''150 Opening data connection'')
        ((recorded (stub_client stub_config [] [])
            [''PASV'' @ [CR, LF], ''TYPE I'' @ [CR, LF], ''RETR f'' @ [CR, LF]])
           \<lparr>data_socks := [?k ?evs []]\<rparr>))"
    by (subst command_reply[where k = "?c [''PASV'' @ [CR, LF], ''TYPE I'' @ [CR, LF]]"
          and l = "''150 Opening data connection''" and rest = "[]" and code = 150])
       (simp_all add: stub_defs eval_defs)
  have d: "download (stub_client stub_config
       [?p, reply ''200 Type set to I'', reply ''150 Opening data connection'']
       [data_server [] ?evs]) ''f'' ''g'' =
     Some (Raises OSError
       ((recorded (stub_client stub_config [] [])
           [''PASV'' @ [CR, LF], ''TYPE I'' @ [CR, LF], ''RETR f'' @ [CR, LF]])
          \<lparr>data_socks := [?k [] []], fs := [''g'' \<mapsto> ''drwxr-xr-x'']\<rparr>))"
    unfolding download_def data_server_def data_connection_example[OF ns(1)]
    by (simp add: ns c2[simplified] c3[simplified] download_loop_example)
       (simp add: stub_client_def recorded_def)
  from l d show ?thesis by simp
qed

section \<open>Logging in\<close>








section \<open>Listing lines\<close>

text \<open>
  A line is split into at most 9 fields. With fewer than 9 fields the whole line is the
  name of the entry; with 9 fields the entry is made of fields 0, 4 and 8, as long as
  field 4 holds none of the superscript digits, which \<open>str.isdigit\<close> takes for digits
  and \<open>int()\<close> does not, and has no more than 4300 characters.
\<close>

lemma split_max_length: "length (split_max n s) \<le> Suc n"
  by (induction n arbitrary: s) auto

lemma isdigit_decimal:
  assumes "isdigit w" "\<forall>c \<in> set w. c \<notin> {CHR 0xB2, CHR 0xB3, CHR 0xB9}"
    and "length w \<le> 4300"
  shows "py_int w = Some (int (dec_val w))"
proof -
  from assms have "w \<noteq> []" "list_all isdecimal w" "length w \<le> max_str_digits"
    by (auto simp: isdigit_def isdigit_char_def list_all_iff max_str_digits_def)
  then show ?thesis by (rule py_int_decimal)
qed

lemma parse_list_line_fields:
  assumes "line \<noteq> []"
  shows "(length (split_max 8 line) < 9 \<longrightarrow>
            parse_list_line line =
              Inr (Some \<lparr>name = line, fsize = 0, modified = None, is_dir = False,
                         permissions = [], raw = line\<rparr>)) \<and>
         (length (split_max 8 line) = 9 \<and>
          (\<forall>c \<in> set (split_max 8 line ! 4). c \<notin> {CHR 0xB2, CHR 0xB3, CHR 0xB9}) \<and>
          length (split_max 8 line ! 4) \<le> 4300 \<longrightarrow>
            parse_list_line line =
              Inr (Some \<lparr>name = split_max 8 line ! 8,
                         fsize = (if isdigit (split_max 8 line ! 4)
                                  then int (dec_val (split_max 8 line ! 4)) else 0),
                         modified = None,
                         is_dir = startswith (split_max 8 line ! 0) ''d'',
                         permissions = split_max 8 line ! 0, raw = line\<rparr>))"
  using assms isdigit_decimal[of "split_max 8 line ! 4"]
  by (auto simp: parse_list_line_def)

lemma split_example:
  "split_max 8 ''-rw-r--r-- 1 user group 1234 Jan 1 00:00 file.txt'' =
     [''-rw-r--r--'', ''1'', ''user'', ''group'', ''1234'', ''Jan'', ''1'', ''00:00'', ''file.txt'']"
  by (simp add: eval_nat_numeral isspace_def)

lemma split_example_spaces:
  "split_max 8 ''drwxr-xr-x 2 user group 4096 Jan 1 00:00 my  sub dir '' =
     [''drwxr-xr-x'', ''2'', ''user'', ''group'', ''4096'', ''Jan'', ''1'', ''00:00'', ''my  sub dir '']"
  by (simp add: eval_nat_numeral isspace_def)

lemma parse_example:
  "parse_list_line ''-rw-r--r-- 1 user group 1234 Jan 1 00:00 file.txt'' =
     Inr (Some \<lparr>name = ''file.txt'', fsize = 1234, modified = None, is_dir = False,
                permissions = ''-rw-r--r--'',
                raw = ''-rw-r--r-- 1 user group 1234 Jan 1 00:00 file.txt''\<rparr>)"
  unfolding parse_list_line_def split_example
  by (simp add: isdigit_def isdigit_char_def startswith_def eval_defs)

lemma split_superscript:
  "split_max 8 (''-rw-r--r-- 1 user group '' @ [CHR 0xB2] @ '' Jan 1 00:00 file.txt'') =
     [''-rw-r--r--'', ''1'', ''user'', ''group'', [CHR 0xB2], ''Jan'', ''1'', ''00:00'', ''file.txt'']"
  by (simp add: eval_nat_numeral isspace_def)

text \<open>
  C6 (the code at a failing input). The claim is that a line with 9 fields yields an
  entry whose size is field 4 parsed as an integer when it is fully numeric, and 0
  otherwise. Here field 4 is the superscript two: \<open>isdigit()\<close> accepts it,
  \<open>int()\<close> raises, and \<open>_parse_list_line\<close> yields no entry at all.
\<close>

theorem parse_list_line_superscript_digit:
  "parse_list_line (''-rw-r--r-- 1 user group '' @ [CHR 0xB2] @ '' Jan 1 00:00 file.txt'') =
     Inl ValueError"
  unfolding parse_list_line_def split_superscript
  by (simp add: isdigit_def isdigit_char_def eval_defs)

section \<open>A listing that succeeds\<close>

text \<open>
  When nothing fails, \<open>list\<close> returns the entries of the listing and has closed the
  data socket it opened.
\<close>

lemma recv_all_listing:
  "recv_all \<lparr>peer = a, sock_timeout = t, is_connected = True, server_hostname = None,
             peer_certs = [],
             inbound = [Data (''-rw-r--r-- 1 user group 1234 Jan 1 00:00 file.txt'' @ [CR, LF])],
             send_faults = [], sent = [], is_closed = False, io_refs = 0\<rparr> [] =
   (True, ''-rw-r--r-- 1 user group 1234 Jan 1 00:00 file.txt'' @ [CR, LF],
    \<lparr>peer = a, sock_timeout = t, is_connected = True, server_hostname = None,
      peer_certs = [], inbound = [], send_faults = [], sent = [],
      is_closed = False, io_refs = 0\<rparr>)"
  by (simp add: recv_all.simps sock_recv_def)

lemma splitlines_listing:
  "splitlines (''-rw-r--r-- 1 user group 1234 Jan 1 00:00 file.txt'' @ [CR, LF]) =
     [''-rw-r--r-- 1 user group 1234 Jan 1 00:00 file.txt'']"
  by (simp add: splitlines_def linebreak_def)

lemma list_closes_data_socket_when_it_returns:
  "list (\<lambda>bytes. bytes) (stub_client stub_config
       [reply ''227 Entering Passive Mode (10,0,0,7,200,10).'', reply ''150 Here comes the listing'',
        reply ''226 Directory send OK'']
       [data_server [] [Data (''-rw-r--r-- 1 user group 1234 Jan 1 00:00 file.txt'' @ [CR, LF])]]) [] =
     Some (Returns
       [\<lparr>name = ''file.txt'', fsize = 1234, modified = None, is_dir = False,
         permissions = ''-rw-r--r--'',
         raw = ''-rw-r--r-- 1 user group 1234 Jan 1 00:00 file.txt''\<rparr>]
       ((recorded (stub_client stub_config [] []) [''PASV'' @ [CR, LF], ''LIST'' @ [CR, LF]])
          \<lparr>data_socks :=
             [\<lparr>peer = (''10.0.0.7'', 51210), sock_timeout = Some 30, is_connected = False,
               server_hostname = None, peer_certs = [], inbound = [], send_faults = [],
               sent = [], is_closed = True, io_refs = 0\<rparr>]\<rparr>))"
proof -
  let ?line = "''-rw-r--r-- 1 user group 1234 Jan 1 00:00 file.txt''"
  let ?k = "\<lambda>evs c b. \<lparr>peer = (''10.0.0.7'', 51210 :: int), sock_timeout = Some (30 :: real),
               is_connected = c, server_hostname = None, peer_certs = [],
               inbound = evs, send_faults = [], sent = [], is_closed = b, io_refs = 0\<rparr>"
  let ?c = "\<lambda>ps. \<lparr>peer = (host stub_config, port stub_config),
               sock_timeout = Some (timeout stub_config), is_connected = True,
               server_hostname = None, peer_certs = [], inbound = [], send_faults = [],
               sent = ps, is_closed = False, io_refs = 1\<rparr>"
  let ?evs = "[Data (?line @ [CR, LF])]"
  have ns: "\<not> secure stub_config" "timeout stub_config = 30"
    by (simp_all add: stub_config_def FTPConfig_init_def)
  have c1: "command ((recorded (stub_client stub_config
                [reply ''150 Here comes the listing'', reply ''226 Directory send OK''] [])
                [''PASV'' @ [CR, LF]])\<lparr>data_socks := [?k ?evs True False]\<rparr>) ''LIST'' None =
      Some (Returns (150, ''150 Here comes the listing'')
        ((recorded (stub_client stub_config [reply ''226 Directory send OK''] [])
            [''PASV'' @ [CR, LF], ''LIST'' @ [CR, LF]])
           \<lparr>data_socks := [?k ?evs True False]\<rparr>))"
    by (subst command_reply[where k = "?c [''PASV'' @ [CR, LF]]"
          and l = "''150 Here comes the listing''" and rest = "[reply ''226 Directory send OK'']"
          and code = 150])
       (simp_all add: stub_defs eval_defs)
  have r: "read_response ((recorded (stub_client stub_config [reply ''226 Directory send OK''] [])
            [''PASV'' @ [CR, LF], ''LIST'' @ [CR, LF]])
           \<lparr>data_socks := [?k [] False True]\<rparr>) =
      Some (Returns (226, ''226 Directory send OK'')
        ((recorded (stub_client stub_config [] [])
            [''PASV'' @ [CR, LF], ''LIST'' @ [CR, LF]])
           \<lparr>data_socks := [?k [] False True]\<rparr>))"
    using read_response_stream[of "(recorded (stub_client stub_config [reply ''226 Directory send OK''] [])
            [''PASV'' @ [CR, LF], ''LIST'' @ [CR, LF]])
           \<lparr>data_socks := [?k [] False True]\<rparr>" "[]" "''226 Directory send OK'' @ [CR, LF]" "[]"]
    by (simp add: stub_client_def recorded_def eval_defs)
  show ?thesis
    unfolding list_def data_server_def data_connection_example[OF ns(1)]
    by (simp add: ns c1[simplified] recv_all_listing[simplified] sock_close_def r[simplified]
        splitlines_listing[simplified] parse_example)
qed

section \<open>Closing a session that connect opened\<close>

lemma connect_example:
  "connect (FTPClient_init
        (FTPConfig_init ''ftp.example.com'' None None None None None None)
        [data_server []
           (reply ''220 Welcome'' # reply ''331 Password required'' #
            reply ''230 Logged in'' # rest)] Map.empty []) =
     Some (Returns ()
       (recorded (stub_client
            (FTPConfig_init ''ftp.example.com'' None None None None None None) rest [])
          [''USER anonymous'' @ [CR, LF], ''PASS anonymous@'' @ [CR, LF]]))"
proof -
  let ?cfg = "FTPConfig_init ''ftp.example.com'' None None None None None None"
  let ?w = "reply ''220 Welcome''"
  let ?u = "reply ''331 Password required''"
  let ?p = "reply ''230 Logged in''"
  let ?s = "FTPClient_init ?cfg [data_server [] (?w # ?u # ?p # rest)] Map.empty []"
  let ?s' = "recorded (stub_client ?cfg rest [])
               [''USER anonymous'' @ [CR, LF], ''PASS anonymous@'' @ [CR, LF]]"
  let ?c = "\<lambda>ps. \<lparr>peer = (host ?cfg, port ?cfg), sock_timeout = Some (timeout ?cfg),
               is_connected = True, server_hostname = None, peer_certs = [], inbound = [],
               send_faults = [], sent = ps, is_closed = False, io_refs = 1\<rparr>"
  have r: "read_response (stub_client ?cfg (?w # ?u # ?p # rest) []) =
      Some (Returns (220, ''220 Welcome'') (stub_client ?cfg (?u # ?p # rest) []))"
    using read_response_stream[of "stub_client ?cfg (?w # ?u # ?p # rest) []" "[]"
        "''220 Welcome'' @ [CR, LF]" "?u # ?p # rest"]
    by (simp add: stub_client_def eval_defs)
  have c1: "command (stub_client ?cfg (?u # ?p # rest) []) (''USER '' @ ''anonymous'') None =
      Some (Returns (331, ''331 Password required'')
             (recorded (stub_client ?cfg (?p # rest) []) [''USER anonymous'' @ [CR, LF]]))"
    by (subst command_reply[where k = "?c []" and l = "''331 Password required''"
          and rest = "?p # rest" and code = 331])
       (simp_all add: stub_client_def recorded_def encode_def encode_char_def eval_defs)
  have c2: "command (recorded (stub_client ?cfg (?p # rest) []) [''USER anonymous'' @ [CR, LF]])
              (''PASS '' @ ''anonymous@'') None =
      Some (Returns (230, ''230 Logged in'') ?s')"
    by (subst command_reply[where k = "?c [''USER anonymous'' @ [CR, LF]]"
          and l = "''230 Logged in''" and rest = rest and code = 230])
       (simp_all add: stub_client_def recorded_def encode_def encode_char_def eval_defs)
  have u: "username ?cfg = ''anonymous''" "password ?cfg = ''anonymous@''" "\<not> secure ?cfg"
    by (simp_all add: FTPConfig_init_def)
  have s0: "?s\<lparr>socket := Some ((?c [])\<lparr>inbound := [], io_refs := 1\<rparr>),
               rfile := Some (?w # ?u # ?p # rest), net := []\<rparr> =
            stub_client ?cfg (?w # ?u # ?p # rest) []"
    by (simp add: FTPClient_init_def stub_client_def)
  have o: "open_socket (net ?s) (timeout (config ?s)) (host (config ?s), port (config ?s)) =
           ((?c [])\<lparr>inbound := ?w # ?u # ?p # rest, io_refs := 0\<rparr>, [])"
    by (simp add: open_socket_def FTPClient_init_def data_server_def)
  have cfg: "config (stub_client ?cfg evs world) = ?cfg" for evs world
    by (simp add: stub_client_def)
  have cfg': "config (recorded (stub_client ?cfg evs world) ps) = ?cfg" for evs world ps
    by (simp add: stub_client_def recorded_def)
  have cs: "config ?s = ?cfg" by (simp add: FTPClient_init_def)
  show ?thesis
    unfolding connect_def o
    by (simp add: cs u s0[simplified] r cfg cfg' c1[simplified] c2[simplified])
qed

text \<open>
  C7 (the code at failing inputs). The claim is that \<open>close()\<close> drops any failure of
  \<open>QUIT\<close> and then unconditionally closes the control connection. A session is opened
  by \<open>connect\<close>. When the server has closed the connection without a reply to
  \<open>QUIT\<close>, \<open>close()\<close> never returns. When the server answers \<open>QUIT\<close>,
  \<open>close()\<close> returns with the socket object marked closed, but the connection stands:
  the reader that \<open>connect\<close> made from the socket is still open.
\<close>

theorem close_leaves_connection_open:
  "connect (FTPClient_init
        (FTPConfig_init ''ftp.example.com'' None None None None None None)
        [data_server []
           [reply ''220 Welcome'', reply ''331 Password required'', reply ''230 Logged in'']]
        Map.empty []) =
     Some (Returns ()
       (recorded (stub_client
            (FTPConfig_init ''ftp.example.com'' None None None None None None) [] [])
          [''USER anonymous'' @ [CR, LF], ''PASS anonymous@'' @ [CR, LF]])) \<and>
   close (recorded (stub_client
            (FTPConfig_init ''ftp.example.com'' None None None None None None) [] [])
          [''USER anonymous'' @ [CR, LF], ''PASS anonymous@'' @ [CR, LF]]) = None \<and>
   connect (FTPClient_init
        (FTPConfig_init ''ftp.example.com'' None None None None None None)
        [data_server []
           [reply ''220 Welcome'', reply ''331 Password required'', reply ''230 Logged in'',
            reply ''221 Goodbye'']]
        Map.empty []) =
     Some (Returns ()
       (recorded (stub_client
            (FTPConfig_init ''ftp.example.com'' None None None None None None)
            [reply ''221 Goodbye''] [])
          [''USER anonymous'' @ [CR, LF], ''PASS anonymous@'' @ [CR, LF]])) \<and>
   close (recorded (stub_client
            (FTPConfig_init ''ftp.example.com'' None None None None None None)
            [reply ''221 Goodbye''] [])
          [''USER anonymous'' @ [CR, LF], ''PASS anonymous@'' @ [CR, LF]]) =
     Some (Returns ()
       ((stub_client
            (FTPConfig_init ''ftp.example.com'' None None None None None None) [] [])
          \<lparr>socket :=
             Some \<lparr>peer = (''ftp.example.com'', 21), sock_timeout = Some 30,
                    is_connected = True, server_hostname = None, peer_certs = [],
                    inbound = [], send_faults = [],
                    sent = [''USER anonymous'' @ [CR, LF], ''PASS anonymous@'' @ [CR, LF],
                            ''QUIT'' @ [CR, LF]],
                    is_closed = True, io_refs = 1\<rparr>\<rparr>))"
proof -
  let ?cfg = "FTPConfig_init ''ftp.example.com'' None None None None None None"
  let ?login = "[''USER anonymous'' @ [CR, LF], ''PASS anonymous@'' @ [CR, LF]]"
  let ?k = "\<lparr>peer = (host ?cfg, port ?cfg), sock_timeout = Some (timeout ?cfg),
             is_connected = True, server_hostname = None, peer_certs = [], inbound = [],
             send_faults = [], sent = ?login, is_closed = False, io_refs = 1\<rparr>"
  have hang: "close (recorded (stub_client ?cfg [] []) ?login) = None"
    by (rule close_hangs_at_eof[where k = ?k]) (simp_all add: stub_client_def recorded_def)
  have q: "command (recorded (stub_client ?cfg [reply ''221 Goodbye''] []) ?login) ''QUIT'' None =
      Some (Returns (221, ''221 Goodbye'')
             (recorded (stub_client ?cfg [] []) (?login @ [''QUIT'' @ [CR, LF]])))"
    by (subst command_reply[where k = ?k and l = "''221 Goodbye''" and rest = "[]"
          and code = 221])
       (simp_all add: stub_client_def recorded_def encode_def encode_char_def eval_defs)
  have "close (recorded (stub_client ?cfg [reply ''221 Goodbye''] []) ?login) =
      Some (Returns ()
             (close_socket (recorded (stub_client ?cfg [] []) (?login @ [''QUIT'' @ [CR, LF]]))))"
    using q by (simp add: close_def)
  then have closed: "close (recorded (stub_client ?cfg [reply ''221 Goodbye''] []) ?login) =
     Some (Returns ()
       ((stub_client ?cfg [] [])
          \<lparr>socket :=
             Some \<lparr>peer = (''ftp.example.com'', 21), sock_timeout = Some 30,
                    is_connected = True, server_hostname = None, peer_certs = [],
                    inbound = [], send_faults = [],
                    sent = [''USER anonymous'' @ [CR, LF], ''PASS anonymous@'' @ [CR, LF],
                            ''QUIT'' @ [CR, LF]],
                    is_closed = True, io_refs = 1\<rparr>\<rparr>))"
    by (simp add: close_socket_def sock_close_def recorded_def stub_client_def
        FTPConfig_init_def)
  from connect_example[of "[]"] connect_example[of "[reply ''221 Goodbye'']"] hang closed
  show ?thesis by simp
qed

end
